theory Spec2Isabelle
  imports Complex_Main
begin

section \<open>Values and configuration of the training driver\<close>

text \<open>
  The driver \<open>main.py\<close> is dynamically typed: a checkpoint read from disk and a param group
  of the optimizer are dictionaries from strings to arbitrary values.  The values that occur
  are integers, floats, booleans, a state dict of the network (weights of type \<open>'w\<close>) and the
  parameter list of a param group.  Floats are idealised as real numbers.
\<close>

datatype 'w pyval =
    PInt int
  | PFloat real
  | PBool bool
  | PStateDict 'w
  | PParams

type_synonym 'w pydict = "string \<rightharpoonup> 'w pyval"

text \<open>
  The namespace returned by \<open>parser.parse_args()\<close>, one field per command-line option.
  \<open>start_epoch\<close> is later overwritten with whatever a checkpoint holds under \<open>'epoch'\<close>, so
  this field carries a dynamic value; argparse (\<open>type=int\<close>) delivers a \<open>PInt\<close>.
\<close>

record 'w namespace =
  epochs :: int
  start_epoch :: "'w pyval"
  batch_size :: int
  lr :: real
  momentum :: real
  weight_decay :: real
  print_freq :: int
  layers :: int
  growth :: int
  droprate :: real
  augment :: bool
  reduce :: real
  bottleneck :: bool
  resume :: string
  imagenet :: bool
  test :: string
  name :: string
  tensorboard :: bool

section \<open>The learning-rate schedule\<close>

text \<open>Python's \<open>x ** k\<close> for a float base and an integer exponent.\<close>

definition py_pow :: "real \<Rightarrow> int \<Rightarrow> real" where
  "py_pow x k = (if 0 \<le> k then x ^ nat k else 1 / x ^ nat (- k))"

text \<open>
  The rate computed by \<open>adjust_learning_rate\<close>; \<open>div\<close> on \<open>int\<close> rounds towards minus
  infinity, as Python's \<open>//\<close> does.
\<close>

definition scheduled_lr :: "'w namespace \<Rightarrow> int \<Rightarrow> real" where
  "scheduled_lr a epoch =
     (if imagenet a
      then lr a * py_pow (1 / 10) (epoch div 30) * py_pow (1 / 10) (epoch div 60)
      else lr a * py_pow (1 / 10) (epoch div 150) * py_pow (1 / 10) (epoch div 225))"

text \<open>
  The part of the program state that \<open>adjust_learning_rate\<close> can reach: the param groups of
  the optimizer it is given and the TensorBoard log written by \<open>log_value\<close>.
\<close>

type_synonym tb_entry = "string \<times> real \<times> int"

definition set_lr :: "real \<Rightarrow> 'w pydict list \<Rightarrow> 'w pydict list" where
  "set_lr r groups = map (\<lambda>g. g(''lr'' \<mapsto> PFloat r)) groups"

definition adjust_learning_rate ::
  "'w namespace \<Rightarrow> 'w pydict list \<times> tb_entry list \<Rightarrow> int \<Rightarrow> 'w pydict list \<times> tb_entry list" where
  "adjust_learning_rate a st epoch =
     (let r = scheduled_lr a epoch;
          tb = (if tensorboard a then snd st @ [(''learning_rate'', r, epoch)] else snd st)
      in (set_lr r (fst st), tb))"

section \<open>Program state, events and errors\<close>

datatype loader = TrainLoader | ValLoader | TestLoader

text \<open>The lines written by the \<open>print\<close> calls of \<open>main\<close>, with the values they format.\<close>

datatype 'w message =
    MsgParamCount
  | MsgLoadingCheckpoint string
  | MsgLoadedCheckpoint string "'w pyval"
  | MsgNoCheckpoint string
  | MsgLoadingModel string
  | MsgLoadedModel string
  | MsgNoModel string
  | MsgBestAccuracy "'w pyval"

text \<open>
  The calls \<open>main\<close> makes, in the order it makes them.  \<open>Validate\<close> carries the precision the
  call returned, \<open>SaveCheckpoint\<close> the number stored under \<open>'epoch'\<close>.
\<close>

datatype 'w event =
    Configure string
  | Print "'w message"
  | TorchLoad string
  | MakeOptimizer
  | AdjustLR int
  | Train loader int
  | Validate loader int real
  | SaveCheckpoint int
  | Test loader

text \<open>The operations \<open>save_checkpoint\<close> performs on the file system.\<close>

datatype 'w fs_op =
    MakeDirs string
  | TorchSave string "'w pydict"
  | CopyFile string string

datatype error =
    KeyError string
  | TypeError
  | UnboundLocalError string

text \<open>
  The state \<open>main\<close> works on: the globals \<open>args\<close> and \<open>best_prec1\<close>, the weights of
  \<open>model\<close>, the locals \<open>optimizer\<close> and \<open>test_loader\<close> (\<open>None\<close> while unbound), the files
  and directories on disk, the TensorBoard log, and the history of calls.  A file holds the
  dictionary that \<open>torch.load\<close> returns for it.
\<close>

record 'w state =
  args :: "'w namespace"
  best_prec1 :: "'w pyval"
  model :: "'w"
  optimizer :: "'w pydict list option"
  test_loader :: "loader option"
  files :: "string \<rightharpoonup> 'w pydict"
  dirs :: "string set"
  tb_log :: "tb_entry list"
  fs_log :: "'w fs_op list"
  trace :: "'w event list"

text \<open>
  The functions of \<open>train.py\<close> and of the network module, which are not part of this file:
  the weights of a freshly built network, the weights after one training pass, and the
  precision a validation pass returns.
\<close>

record 'w extern =
  init_model :: "bool \<Rightarrow> 'w"
  train :: "'w \<Rightarrow> 'w pydict list \<Rightarrow> int \<Rightarrow> 'w"
  validate :: "'w \<Rightarrow> int \<Rightarrow> real"

definition emit :: "'w event list \<Rightarrow> 'w state \<Rightarrow> 'w state" where
  "emit es s = s\<lparr>trace := trace s @ es\<rparr>"

section \<open>Dynamic typing\<close>

text \<open>A value as a number, where Python accepts it in a comparison with a float.\<close>

fun num_of :: "'w pyval \<Rightarrow> real option" where
  "num_of (PInt i) = Some (of_int i)"
| "num_of (PFloat r) = Some r"
| "num_of (PBool b) = Some (if b then 1 else 0)"
| "num_of (PStateDict w) = None"
| "num_of PParams = None"

text \<open>A value as an index, where \<open>range\<close> accepts it.\<close>

fun index_of :: "'w pyval \<Rightarrow> int option" where
  "index_of (PInt i) = Some i"
| "index_of (PBool b) = Some (if b then 1 else 0)"
| "index_of (PFloat r) = None"
| "index_of (PStateDict w) = None"
| "index_of PParams = None"

text \<open>\<open>prec1 > best_prec1\<close> for a float \<open>prec1\<close>.\<close>

definition py_gt :: "real \<Rightarrow> 'w pyval \<Rightarrow> error + bool" where
  "py_gt x v = (case num_of v of None \<Rightarrow> Inl TypeError | Some y \<Rightarrow> Inr (y < x))"

text \<open>
  \<open>max(prec1, best_prec1)\<close>: the first argument, unless the second is greater; the result is
  the argument itself, not a converted copy.
\<close>

definition py_max :: "real \<Rightarrow> 'w pyval \<Rightarrow> error + 'w pyval" where
  "py_max x v = (case num_of v of None \<Rightarrow> Inl TypeError
                 | Some y \<Rightarrow> Inr (if x < y then v else PFloat x))"

text \<open>\<open>range(a, b)\<close> over integers.\<close>

definition py_range :: "int \<Rightarrow> int \<Rightarrow> int list" where
  "py_range a b = [a..b - 1]"

section \<open>Checkpoints\<close>

definition checkpoint_path :: "string \<Rightarrow> string" where
  "checkpoint_path n = ''runs/'' @ n @ ''/'' @ ''checkpoint.pth.tar''"

definition best_path :: "string \<Rightarrow> string" where
  "best_path n = ''runs/'' @ n @ ''/model_best.pth.tar''"

text \<open>\<open>save_checkpoint(state, is_best)\<close> with the default \<open>filename\<close>.\<close>

definition save_checkpoint :: "'w pydict \<Rightarrow> bool \<Rightarrow> 'w state \<Rightarrow> 'w state" where
  "save_checkpoint ck is_best s =
     (let directory = ''runs/'' @ name (args s) @ ''/'';
          s1 = (if directory \<notin> dirs s
                then s\<lparr>dirs := insert directory (dirs s),
                       fs_log := fs_log s @ [MakeDirs directory]\<rparr>
                else s);
          filename = directory @ ''checkpoint.pth.tar'';
          s2 = s1\<lparr>files := (files s1)(filename \<mapsto> ck),
                   fs_log := fs_log s1 @ [TorchSave filename ck]\<rparr>
      in if is_best
         then s2\<lparr>files := (files s2)(best_path (name (args s)) := files s2 filename),
                  fs_log := fs_log s2 @ [CopyFile filename (best_path (name (args s)))]\<rparr>
         else s2)"

text \<open>
  The three assignments that follow \<open>torch.load\<close> in the resume branch and in the test
  branch: \<open>args.start_epoch\<close>, \<open>best_prec1\<close> and \<open>model.load_state_dict\<close>, in this order.
\<close>

definition restore_from :: "'w pydict \<Rightarrow> 'w state \<Rightarrow> error + 'w state" where
  "restore_from ck s =
     (case ck ''epoch'' of
        None \<Rightarrow> Inl (KeyError ''epoch'')
      | Some e \<Rightarrow>
          (case ck ''best_prec1'' of
             None \<Rightarrow> Inl (KeyError ''best_prec1'')
           | Some b \<Rightarrow>
               (case ck ''state_dict'' of
                  None \<Rightarrow> Inl (KeyError ''state_dict'')
                | Some (PStateDict w) \<Rightarrow>
                    Inr (s\<lparr>args := (args s)\<lparr>start_epoch := e\<rparr>, best_prec1 := b, model := w\<rparr>)
                | Some _ \<Rightarrow> Inl TypeError)))"

section \<open>The driver\<close>

text \<open>
  Lines 61 to 141: parse the arguments, configure TensorBoard, build the data loaders
  (\<open>test_loader\<close> only when \<open>args.imagenet\<close> is false) and the network.
\<close>

definition prepare ::
  "'w extern \<Rightarrow> 'w namespace \<Rightarrow> (string \<rightharpoonup> 'w pydict) \<Rightarrow> string set \<Rightarrow> 'w state" where
  "prepare x a fs ds =
     \<lparr>args = a, best_prec1 = PFloat 0, model = init_model x (imagenet a), optimizer = None,
      test_loader = (if \<not> imagenet a then Some TestLoader else None),
      files = fs, dirs = ds, tb_log = [], fs_log = [],
      trace = (if tensorboard a then [Configure (''runs/'' @ name a)] else [])
              @ [Print MsgParamCount]\<rparr>"

text \<open>Lines 144 to 153.\<close>

definition resume_branch :: "'w state \<Rightarrow> error + 'w state" where
  "resume_branch s =
     (if resume (args s) \<noteq> []
      then (case files s (resume (args s)) of
              Some ck \<Rightarrow>
                (case restore_from ck
                        (emit [Print (MsgLoadingCheckpoint (resume (args s))),
                               TorchLoad (resume (args s))] s) of
                   Inl e \<Rightarrow> Inl e
                 | Inr s' \<Rightarrow>
                     Inr (emit [Print (MsgLoadedCheckpoint (resume (args s')) (the (ck ''epoch'')))]
                            s'))
            | None \<Rightarrow> Inr (emit [Print (MsgNoCheckpoint (resume (args s)))] s))
      else Inr s)"

text \<open>Lines 158 to 169, the body of \<open>if args.test and not args.imagenet\<close>.\<close>

definition test_branch :: "'w state \<Rightarrow> error + 'w state" where
  "test_branch s =
     (let s1 = s\<lparr>args := (args s)\<lparr>test := ''runs/'' @ test (args s) @ ''/checkpoint.pth.tar''\<rparr>\<rparr>
      in case files s1 (test (args s1)) of
           Some ck \<Rightarrow>
             (case restore_from ck
                     (emit [Print (MsgLoadingModel (test (args s1))), TorchLoad (test (args s1))]
                        s1) of
                Inl e \<Rightarrow> Inl e
              | Inr s2 \<Rightarrow>
                  (case test_loader s2 of
                     None \<Rightarrow> Inl (UnboundLocalError ''test_loader'')
                   | Some l \<Rightarrow> Inr (emit [Print (MsgLoadedModel (test (args s2))), Test l] s2)))
         | None \<Rightarrow> Inr (emit [Print (MsgNoModel (test (args s1)))] s1))"

text \<open>The param group that \<open>torch.optim.SGD(model.parameters(), args.lr, ...)\<close> starts with.\<close>

definition sgd_group :: "'w namespace \<Rightarrow> 'w pydict" where
  "sgd_group a =
     [''params'' \<mapsto> PParams, ''lr'' \<mapsto> PFloat (lr a), ''momentum'' \<mapsto> PFloat (momentum a),
      ''nesterov'' \<mapsto> PBool True, ''weight_decay'' \<mapsto> PFloat (weight_decay a)]"

text \<open>The dictionary literal passed to \<open>save_checkpoint\<close> in lines 190 to 194.\<close>

definition checkpoint_dict :: "int \<Rightarrow> 'w \<Rightarrow> 'w pyval \<Rightarrow> 'w pydict" where
  "checkpoint_dict epoch w b =
     [''epoch'' \<mapsto> PInt (epoch + 1), ''state_dict'' \<mapsto> PStateDict w, ''best_prec1'' \<mapsto> b]"

text \<open>Lines 179 to 194, the body of the epoch loop.\<close>

definition epoch_body :: "'w extern \<Rightarrow> int \<Rightarrow> 'w state \<Rightarrow> error + 'w state" where
  "epoch_body x epoch s =
     (case optimizer s of
        None \<Rightarrow> Inl (UnboundLocalError ''optimizer'')
      | Some groups \<Rightarrow>
          (let adj = adjust_learning_rate (args s) (groups, tb_log s) epoch;
               s1 = emit [AdjustLR epoch] (s\<lparr>optimizer := Some (fst adj), tb_log := snd adj\<rparr>);
               s2 = emit [Train TrainLoader epoch]
                      (s1\<lparr>model := train x (model s1) (fst adj) epoch\<rparr>);
               prec1 = validate x (model s2) epoch;
               s3 = emit [Validate ValLoader epoch prec1] s2
           in case py_gt prec1 (best_prec1 s3) of
                Inl e \<Rightarrow> Inl e
              | Inr is_best \<Rightarrow>
                  (case py_max prec1 (best_prec1 s3) of
                     Inl e \<Rightarrow> Inl e
                   | Inr b \<Rightarrow>
                       Inr (save_checkpoint (checkpoint_dict epoch (model s3) b) is_best
                              (emit [SaveCheckpoint (epoch + 1)] (s3\<lparr>best_prec1 := b\<rparr>))))))"

fun epoch_loop :: "'w extern \<Rightarrow> int list \<Rightarrow> 'w state \<Rightarrow> error + 'w state" where
  "epoch_loop x [] s = Inr s"
| "epoch_loop x (epoch # rest) s =
     (case epoch_body x epoch s of
        Inl e \<Rightarrow> Inl e
      | Inr s' \<Rightarrow> epoch_loop x rest s')"

text \<open>Lines 172 to 198: optimizer, epoch loop, final report and test pass.\<close>

definition train_phase :: "'w extern \<Rightarrow> 'w state \<Rightarrow> error + 'w state" where
  "train_phase x s =
     (let s1 = emit [MakeOptimizer] (s\<lparr>optimizer := Some [sgd_group (args s)]\<rparr>)
      in case index_of (start_epoch (args s1)) of
           None \<Rightarrow> Inl TypeError
         | Some first \<Rightarrow>
             (case epoch_loop x (py_range first (epochs (args s1))) s1 of
                Inl e \<Rightarrow> Inl e
              | Inr s2 \<Rightarrow>
                  (let s3 = emit [Print (MsgBestAccuracy (best_prec1 s2))] s2
                   in if \<not> imagenet (args s3)
                      then (case test_loader s3 of
                              None \<Rightarrow> Inl (UnboundLocalError ''test_loader'')
                            | Some l \<Rightarrow> Inr (emit [Test l] s3))
                      else Inr s3)))"

definition main ::
  "'w extern \<Rightarrow> 'w namespace \<Rightarrow> (string \<rightharpoonup> 'w pydict) \<Rightarrow> string set \<Rightarrow> error + 'w state" where
  "main x a fs ds =
     (case resume_branch (prepare x a fs ds) of
        Inl e \<Rightarrow> Inl e
      | Inr s \<Rightarrow>
          if test (args s) \<noteq> [] \<and> \<not> imagenet (args s)
          then test_branch s
          else train_phase x s)"

section \<open>Vocabulary of the properties\<close>

text \<open>The four calls of one iteration of the epoch loop, for epoch \<open>e\<close> and precision \<open>p\<close>.\<close>

definition epoch_events :: "int \<Rightarrow> real \<Rightarrow> 'w event list" where
  "epoch_events e p =
     [AdjustLR e, Train TrainLoader e, Validate ValLoader e p, SaveCheckpoint (e + 1)]"

text \<open>The defaults of the argument parser.\<close>

definition default_args :: "'w namespace" where
  "default_args =
     \<lparr>epochs = 300, start_epoch = PInt 0, batch_size = 64, lr = 1 / 10, momentum = 9 / 10,
      weight_decay = 1 / 10000, print_freq = 10, layers = 100, growth = 12, droprate = 0,
      augment = True, reduce = 1 / 2, bottleneck = True, resume = [], imagenet = False,
      test = [], name = ''DenseNet_BC_100_12'', tensorboard = False\<rparr>"

text \<open>
  A small instance for concrete runs: weights are a counter of training passes, and the
  precision of a validation pass is a tenth of that counter.
\<close>

definition demo_extern :: "nat extern" where
  "demo_extern = \<lparr>init_model = (\<lambda>_. 0), train = (\<lambda>w g e. Suc w), validate = (\<lambda>w e. real w / 10)\<rparr>"

definition demo_state :: "nat state" where
  "demo_state =
     (prepare demo_extern default_args Map.empty {})\<lparr>optimizer := Some [sgd_group default_args]\<rparr>"

text \<open>Classes of events: test passes, the calls of the training phase, checkpoint loads.\<close>

fun is_test_pass :: "'w event \<Rightarrow> bool" where
  "is_test_pass (Test l) = True"
| "is_test_pass _ = False"

fun is_training :: "'w event \<Rightarrow> bool" where
  "is_training MakeOptimizer = True"
| "is_training (AdjustLR e) = True"
| "is_training (Train l e) = True"
| "is_training (Validate l e p) = True"
| "is_training (SaveCheckpoint e) = True"
| "is_training _ = False"

fun is_load :: "'w event \<Rightarrow> bool" where
  "is_load (TorchLoad p) = True"
| "is_load _ = False"

text \<open>A well-formed checkpoint for concrete runs.\<close>

definition demo_checkpoint :: "nat pydict" where
  "demo_checkpoint = [''epoch'' \<mapsto> PInt 7, ''state_dict'' \<mapsto> PStateDict 42, ''best_prec1'' \<mapsto> PFloat (9 / 10)]"

text \<open>Files and arguments for concrete runs: resuming, test mode, test mode with ImageNet.\<close>

definition demo_files :: "string \<rightharpoonup> nat pydict" where
  "demo_files = [''runs/exp/checkpoint.pth.tar'' \<mapsto> demo_checkpoint]"

definition resume_args :: "nat namespace" where
  "resume_args = default_args\<lparr>resume := ''runs/exp/checkpoint.pth.tar''\<rparr>"

definition test_args :: "nat namespace" where
  "test_args = default_args\<lparr>test := ''exp''\<rparr>"

definition imagenet_test_args :: "nat namespace" where
  "imagenet_test_args = default_args\<lparr>test := ''exp'', imagenet := True\<rparr>"

section \<open>Basic facts\<close>

lemma emit_simps:
  "args (emit es s) = args s" "best_prec1 (emit es s) = best_prec1 s"
  "model (emit es s) = model s" "optimizer (emit es s) = optimizer s"
  "test_loader (emit es s) = test_loader s" "files (emit es s) = files s"
  "dirs (emit es s) = dirs s" "tb_log (emit es s) = tb_log s"
  "fs_log (emit es s) = fs_log s" "trace (emit es s) = trace s @ es"
  by (simp_all add: emit_def)

lemma save_checkpoint_frame:
  "args (save_checkpoint ck ib s) = args s"
  "best_prec1 (save_checkpoint ck ib s) = best_prec1 s"
  "model (save_checkpoint ck ib s) = model s"
  "optimizer (save_checkpoint ck ib s) = optimizer s"
  "test_loader (save_checkpoint ck ib s) = test_loader s"
  "tb_log (save_checkpoint ck ib s) = tb_log s"
  "trace (save_checkpoint ck ib s) = trace s"
  by (simp_all add: save_checkpoint_def Let_def)

lemma paths_differ: "checkpoint_path n \<noteq> best_path n"
  by (simp add: checkpoint_path_def best_path_def)

lemma save_checkpoint_files:
  "files (save_checkpoint ck ib s)
     = (if ib then (files s)(checkpoint_path (name (args s)) \<mapsto> ck, best_path (name (args s)) \<mapsto> ck)
        else (files s)(checkpoint_path (name (args s)) \<mapsto> ck))"
  by (simp add: save_checkpoint_def Let_def checkpoint_path_def best_path_def)

lemma save_checkpoint_dirs:
  "dirs (save_checkpoint ck ib s) = insert (''runs/'' @ name (args s) @ ''/'') (dirs s)"
  by (auto simp add: save_checkpoint_def Let_def)

lemma save_checkpoint_fs_log:
  "fs_log (save_checkpoint ck ib s)
     = fs_log s
       @ (if ''runs/'' @ name (args s) @ ''/'' \<notin> dirs s
          then [MakeDirs (''runs/'' @ name (args s) @ ''/'')] else [])
       @ [TorchSave (checkpoint_path (name (args s))) ck]
       @ (if ib then [CopyFile (checkpoint_path (name (args s))) (best_path (name (args s)))]
          else [])"
  by (simp add: save_checkpoint_def Let_def checkpoint_path_def)

lemma epoch_body_eq:
  fixes x :: "'w extern" and s :: "'w state" and e :: int
  defines "w \<equiv> train x (model s) (set_lr (scheduled_lr (args s) e) (the (optimizer s))) e"
  defines "p \<equiv> validate x w e"
  assumes "optimizer s = Some g" "num_of (best_prec1 s) = Some b"
  shows "epoch_body x e s =
     Inr (save_checkpoint
            (checkpoint_dict e w (if p < b then best_prec1 s else PFloat p)) (b < p)
            (s\<lparr>optimizer := Some (set_lr (scheduled_lr (args s) e) g),
               tb_log := (if tensorboard (args s)
                          then tb_log s @ [(''learning_rate'', scheduled_lr (args s) e, e)]
                          else tb_log s),
               model := w,
               best_prec1 := (if p < b then best_prec1 s else PFloat p),
               trace := trace s @ [AdjustLR e, Train TrainLoader e, Validate ValLoader e p,
                                   SaveCheckpoint (e + 1)]\<rparr>))"
  using assms
  by (simp add: epoch_body_def Let_def py_gt_def py_max_def adjust_learning_rate_def emit_def)

lemma epoch_body_TypeError:
  assumes "optimizer s = Some g" "num_of (best_prec1 s) = None"
  shows "epoch_body x e s = Inl TypeError"
  using assms
  by (simp add: epoch_body_def Let_def py_gt_def emit_def)

lemma epoch_body_Inr:
  assumes "optimizer s = Some g" "num_of (best_prec1 s) = Some b"
  shows "\<exists>s'. epoch_body x e s = Inr s'
    \<and> args s' = args s \<and> test_loader s' = test_loader s
    \<and> optimizer s' = Some (set_lr (scheduled_lr (args s) e) g)
    \<and> model s' = train x (model s) (set_lr (scheduled_lr (args s) e) g) e
    \<and> num_of (best_prec1 s') = Some (max (validate x (model s') e) b)
    \<and> best_prec1 s' = (if validate x (model s') e < b then best_prec1 s else PFloat (validate x (model s') e))
    \<and> trace s' = trace s @ [AdjustLR e, Train TrainLoader e,
                             Validate ValLoader e (validate x (model s') e), SaveCheckpoint (e + 1)]"
  using assms
  by (simp add: epoch_body_eq [OF assms] save_checkpoint_frame max_def)

lemma epoch_body_files:
  assumes "optimizer s = Some g" "num_of (best_prec1 s) = Some b" "epoch_body x e s = Inr s'"
  shows "files s' (checkpoint_path (name (args s))) = Some (checkpoint_dict e (model s') (best_prec1 s'))"
    and "files s' (best_path (name (args s)))
         = (if b < validate x (model s') e then Some (checkpoint_dict e (model s') (best_prec1 s'))
            else files s (best_path (name (args s))))"
    and "dirs s' = insert (''runs/'' @ name (args s) @ ''/'') (dirs s)"
    and "fs_log s' = fs_log s
       @ (if ''runs/'' @ name (args s) @ ''/'' \<notin> dirs s
          then [MakeDirs (''runs/'' @ name (args s) @ ''/'')] else [])
       @ [TorchSave (checkpoint_path (name (args s))) (checkpoint_dict e (model s') (best_prec1 s'))]
       @ (if b < validate x (model s') e
          then [CopyFile (checkpoint_path (name (args s))) (best_path (name (args s)))]
          else [])"
  using assms(3) unfolding epoch_body_eq [OF assms(1,2)]
  by (auto simp add: save_checkpoint_frame save_checkpoint_files save_checkpoint_dirs
      save_checkpoint_fs_log paths_differ paths_differ [symmetric] assms(1))

lemma epoch_loop_run:
  assumes "optimizer s = Some g" "num_of (best_prec1 s) = Some b"
  shows "\<exists>s' ps. epoch_loop x es s = Inr s' \<and> length ps = length es
           \<and> trace s' = trace s @ concat (map2 epoch_events es ps)
           \<and> num_of (best_prec1 s') = Some (fold max ps b)
           \<and> args s' = args s \<and> test_loader s' = test_loader s \<and> optimizer s' \<noteq> None"
  using assms
proof (induction es arbitrary: s g b)
  case Nil
  then show ?case by simp
next
  case (Cons e es)
  from epoch_body_Inr [OF Cons.prems, of x e]
  obtain s1 where s1: "epoch_body x e s = Inr s1" "args s1 = args s"
      "test_loader s1 = test_loader s"
      "optimizer s1 = Some (set_lr (scheduled_lr (args s) e) g)"
      "num_of (best_prec1 s1) = Some (max (validate x (model s1) e) b)"
      "trace s1 = trace s @ epoch_events e (validate x (model s1) e)"
    unfolding epoch_events_def by blast
  from Cons.IH [OF s1(4) s1(5), of ] obtain s' ps where
    r: "epoch_loop x es s1 = Inr s'" "length ps = length es"
       "trace s' = trace s1 @ concat (map2 epoch_events es ps)"
       "num_of (best_prec1 s') = Some (fold max ps (max (validate x (model s1) e) b))"
       "args s' = args s1" "test_loader s' = test_loader s1" "optimizer s' \<noteq> None"
    by blast
  let ?ps = "validate x (model s1) e # ps"
  have "epoch_loop x (e # es) s = Inr s'" using s1(1) r(1) by simp
  moreover have "length ?ps = length (e # es)" using r(2) by simp
  moreover have "trace s' = trace s @ concat (map2 epoch_events (e # es) ?ps)"
    using r(3) s1(6) by simp
  moreover have "num_of (best_prec1 s') = Some (fold max ?ps b)" using r(4) by simp
  ultimately show ?case using r(5,6,7) s1(2,3)
    by (intro exI [of _ s'] exI [of _ ?ps]) simp
qed

lemma epoch_loop_cases:
  assumes "optimizer s = Some g"
  shows "epoch_loop x es s = Inl TypeError
         \<or> (\<exists>s'. epoch_loop x es s = Inr s' \<and> args s' = args s \<and> test_loader s' = test_loader s)"
  using assms
proof (induction es arbitrary: s g)
  case Nil
  then show ?case by simp
next
  case (Cons e es)
  show ?case
  proof (cases "num_of (best_prec1 s)")
    case None
    then show ?thesis using epoch_body_TypeError [OF Cons.prems None] by simp
  next
    case (Some b)
    from epoch_body_Inr [OF Cons.prems Some, of x e]
    obtain s1 where s1: "epoch_body x e s = Inr s1" "args s1 = args s"
      "test_loader s1 = test_loader s"
      "optimizer s1 = Some (set_lr (scheduled_lr (args s) e) g)"
      by blast
    from Cons.IH [OF s1(4)] show ?thesis using s1(1,2,3) by auto
  qed
qed

lemma fold_max_Max: "fold max ps (b::real) = Max (set (b # ps))"
  by (rule Max.set_eq_fold [symmetric])

lemma set_py_range: "set (py_range a b) = {e. a \<le> e \<and> e < b}"
  by (auto simp add: py_range_def)

lemma py_range_sorted: "sorted (py_range a b) \<and> distinct (py_range a b)"
  by (simp add: py_range_def)

lemma py_range_nth: "i < length (py_range a b) \<Longrightarrow> py_range a b ! i = a + int i"
  by (simp add: py_range_def)

lemma py_range_length: "length (py_range a b) = nat (b - a)"
  by (simp add: py_range_def)

section \<open>The learning-rate schedule, as computed\<close>

lemma py_pow_0: "py_pow x 0 = 1"
  by (simp add: py_pow_def)

lemma py_pow_1: "py_pow x 1 = x"
  by (simp add: py_pow_def)

lemma py_pow_2: "py_pow x 2 = x * x"
  by (simp add: py_pow_def power2_eq_square)

text \<open>
  In CIFAR mode the computed rate follows the docstring for the epochs of a default run:
  the initial rate up to epoch 149, a tenth of it up to epoch 224, a hundredth up to 299.
\<close>

lemma cifar_schedule:
  assumes "\<not> imagenet a" "0 \<le> e" "e < 300"
  shows "scheduled_lr a e = (if e < 150 then lr a else if e < 225 then lr a / 10 else lr a / 100)"
proof -
  consider "e < 150" | "150 \<le> e" "e < 225" | "225 \<le> e" by linarith
  then show ?thesis
  proof cases
    case 1
    then have "e div 150 = 0" "e div 225 = 0" using assms by simp_all
    then show ?thesis using 1 assms by (simp add: scheduled_lr_def py_pow_0)
  next
    case 2
    then have "e div 150 = 1" "e div 225 = 0" using assms by simp_all
    then show ?thesis using 2 assms by (simp add: scheduled_lr_def py_pow_0 py_pow_1)
  next
    case 3
    then have "e div 150 = 1" "e div 225 = 1" using assms by simp_all
    then show ?thesis using 3 assms by (simp add: scheduled_lr_def py_pow_1)
  qed
qed

text \<open>From epoch 300 on the quotient \<open>epoch // 150\<close> is 2, and the rate drops once more.\<close>

lemma cifar_epoch_300: "\<not> imagenet a \<Longrightarrow> scheduled_lr a 300 = lr a / 1000"
  by (simp add: scheduled_lr_def py_pow_1 py_pow_2)

lemma imagenet_schedule_start:
  assumes "imagenet a" "0 \<le> e" "e < 60"
  shows "scheduled_lr a e = (if e < 30 then lr a else lr a / 10)"
proof (cases "e < 30")
  case True
  then have "e div 30 = 0" "e div 60 = 0" using assms by simp_all
  then show ?thesis using True assms by (simp add: scheduled_lr_def py_pow_0)
next
  case False
  then have "e div 30 = 1" "e div 60 = 0" using assms by simp_all
  then show ?thesis using False assms by (simp add: scheduled_lr_def py_pow_0 py_pow_1)
qed

lemma imagenet_epoch_60: "imagenet a \<Longrightarrow> scheduled_lr a 60 = lr a / 1000"
  by (simp add: scheduled_lr_def py_pow_1 py_pow_2)

text \<open>
  C2.  The claim: the rate written into every param group is the initial rate before the
  first milestone, a tenth of it between the milestones and a hundredth of it from the
  second milestone on (milestones 30 and 60 in ImageNet mode).  The code computes something
  else at the second ImageNet milestone: with the default initial rate 0.1 and
  \<open>--imagenet\<close>, the call for epoch 60 writes 0.0001 into the param group, a thousandth of the
  initial rate, where the claim asks for a hundredth, 0.001.
\<close>

theorem adjust_learning_rate_imagenet_epoch_60:
  "fst (adjust_learning_rate (default_args\<lparr>imagenet := True\<rparr>) ([sgd_group default_args], []) 60)
     = [(sgd_group default_args)(''lr'' \<mapsto> PFloat (1 / 10000))]
   \<and> lr (default_args\<lparr>imagenet := True\<rparr>) / 100 = 1 / 1000"
  by (simp add: adjust_learning_rate_def set_lr_def scheduled_lr_def default_args_def
      py_pow_1 py_pow_2 Let_def)

section \<open>What a call of the schedule changes\<close>

text \<open>
  C9, as claimed: the call changes nothing but the \<open>'lr'\<close> entries.  With \<open>--tensorboard\<close>
  the call also writes to the TensorBoard log, which is empty before the call below and
  not after it.
\<close>

theorem adjust_learning_rate_log_counterexample:
  "snd (adjust_learning_rate (default_args\<lparr>tensorboard := True\<rparr>) ([sgd_group default_args], []) 0)
     \<noteq> []"
  by (simp add: adjust_learning_rate_def Let_def)

text \<open>
  C9, amended: the call keeps the number of param groups, sets the \<open>'lr'\<close> entry of each to
  the scheduled rate and leaves every other entry of every group as it was; the TensorBoard
  log gains the one record \<open>('learning_rate', lr, epoch)\<close> when \<open>args.tensorboard\<close> is set
  and is unchanged otherwise.  Groups and log are all the call can reach.
\<close>

theorem adjust_learning_rate_frame:
  "length (fst (adjust_learning_rate a (gs, tb) e)) = length gs
   \<and> (\<forall>i < length gs.
         (fst (adjust_learning_rate a (gs, tb) e) ! i) ''lr'' = Some (PFloat (scheduled_lr a e))
       \<and> (\<forall>k. k \<noteq> ''lr'' \<longrightarrow> (fst (adjust_learning_rate a (gs, tb) e) ! i) k = (gs ! i) k))
   \<and> snd (adjust_learning_rate a (gs, tb) e)
       = (if tensorboard a then tb @ [(''learning_rate'', scheduled_lr a e, e)] else tb)"
  by (simp add: adjust_learning_rate_def set_lr_def Let_def)

theorem adjust_learning_rate_frame_witness:
  "(0::nat) < length [sgd_group (default_args :: nat namespace)]
   \<and> ''momentum'' \<noteq> ''lr''
   \<and> (fst (adjust_learning_rate default_args ([sgd_group (default_args :: nat namespace)], []) 200) ! 0)
        ''momentum'' = Some (PFloat (9 / 10))
   \<and> snd (adjust_learning_rate default_args ([sgd_group (default_args :: nat namespace)], []) 200) = []"
proof -
  have h1: "(0::nat) < length [sgd_group (default_args :: nat namespace)]" by simp
  have h2: "''momentum'' \<noteq> ''lr''" by simp
  have m: "sgd_group (default_args :: nat namespace) ''momentum'' = Some (PFloat (9 / 10))"
    by (simp add: sgd_group_def default_args_def)
  have t: "\<not> tensorboard (default_args :: nat namespace)" by (simp add: default_args_def)
  from adjust_learning_rate_frame [of default_args "[sgd_group (default_args :: nat namespace)]" "[]" 200]
  show ?thesis using h1 h2 m t by simp
qed

section \<open>Best precision and checkpoints in the epoch loop\<close>

text \<open>
  C3.  Started with an optimizer and a numeric \<open>best_prec1\<close> of value \<open>b\<close>, the loop over any
  list of epochs returns, and afterwards \<open>best_prec1\<close> has the value of the maximum of \<open>b\<close> and
  the precisions \<open>ps\<close> that the validation passes of these epochs returned (the ones recorded
  in the trace); in particular it is at least \<open>b\<close>.  The loop over a prefix of the epochs is
  such a loop, so this holds after every epoch.
\<close>

theorem best_prec1_running_max:
  assumes "optimizer s = Some g" "num_of (best_prec1 s) = Some b"
  shows "\<exists>s' ps. epoch_loop x es s = Inr s' \<and> length ps = length es
           \<and> trace s' = trace s @ concat (map2 epoch_events es ps)
           \<and> num_of (best_prec1 s') = Some (Max (set (b # ps)))
           \<and> b \<le> Max (set (b # ps))"
proof -
  from epoch_loop_run [OF assms, of x es] obtain s' ps where
    r: "epoch_loop x es s = Inr s'" "length ps = length es"
       "trace s' = trace s @ concat (map2 epoch_events es ps)"
       "num_of (best_prec1 s') = Some (fold max ps b)"
    by blast
  have "num_of (best_prec1 s') = Some (Max (set (b # ps)))"
    using r(4) by (simp only: fold_max_Max)
  moreover have "b \<le> Max (set (b # ps))" by simp
  ultimately show ?thesis using r(1,2,3) by blast
qed

theorem best_prec1_running_max_witness:
  "optimizer demo_state = Some [sgd_group default_args]
   \<and> num_of (best_prec1 demo_state) = Some 0
   \<and> (\<exists>s' ps. epoch_loop demo_extern [0, 1, 2] demo_state = Inr s' \<and> length ps = length [0::int, 1, 2]
           \<and> trace s' = trace demo_state @ concat (map2 epoch_events [0, 1, 2] ps)
           \<and> num_of (best_prec1 s') = Some (Max (set (0 # ps)))
           \<and> 0 \<le> Max (set (0 # ps)))"
proof -
  have h1: "optimizer demo_state = Some [sgd_group default_args]"
    by (simp add: demo_state_def)
  have h2: "num_of (best_prec1 demo_state) = Some 0"
    by (simp add: demo_state_def prepare_def)
  from best_prec1_running_max [OF h1 h2, of demo_extern "[0, 1, 2]"] show ?thesis
    using h1 h2 by simp
qed

text \<open>
  C4.  One iteration of the loop for epoch \<open>e\<close> returns, and afterwards: the directory
  \<open>runs/{name}/\<close> exists (\<open>makedirs\<close> was called exactly if it did not before); the file
  \<open>runs/{name}/checkpoint.pth.tar\<close> holds \<open>e + 1\<close>, the state dict of the model and the
  current \<open>best_prec1\<close>; the file was copied to \<open>runs/{name}/model_best.pth.tar\<close> exactly if the
  precision \<open>p\<close> of this epoch's validation pass exceeds the value \<open>b\<close> that \<open>best_prec1\<close> had
  before the epoch, and otherwise that file is as it was; no other file changed.
\<close>

theorem checkpoint_written_each_epoch:
  assumes "optimizer s = Some g" "num_of (best_prec1 s) = Some b"
  shows "\<exists>s' ck p. epoch_body x e s = Inr s'
     \<and> p = validate x (model s') e
     \<and> ck = [''epoch'' \<mapsto> PInt (e + 1), ''state_dict'' \<mapsto> PStateDict (model s'),
             ''best_prec1'' \<mapsto> best_prec1 s']
     \<and> files s' (''runs/'' @ name (args s) @ ''/checkpoint.pth.tar'') = Some ck
     \<and> ''runs/'' @ name (args s) @ ''/'' \<in> dirs s'
     \<and> files s' (''runs/'' @ name (args s) @ ''/model_best.pth.tar'')
         = (if b < p then Some ck else files s (''runs/'' @ name (args s) @ ''/model_best.pth.tar''))
     \<and> (\<forall>q. q \<noteq> ''runs/'' @ name (args s) @ ''/checkpoint.pth.tar''
            \<and> q \<noteq> ''runs/'' @ name (args s) @ ''/model_best.pth.tar'' \<longrightarrow> files s' q = files s q)
     \<and> fs_log s' = fs_log s
         @ (if ''runs/'' @ name (args s) @ ''/'' \<notin> dirs s
            then [MakeDirs (''runs/'' @ name (args s) @ ''/'')] else [])
         @ [TorchSave (''runs/'' @ name (args s) @ ''/checkpoint.pth.tar'') ck]
         @ (if b < p
            then [CopyFile (''runs/'' @ name (args s) @ ''/checkpoint.pth.tar'')
                           (''runs/'' @ name (args s) @ ''/model_best.pth.tar'')]
            else [])"
proof -
  from epoch_body_Inr [OF assms, of x e] obtain s' where s': "epoch_body x e s = Inr s'"
    by blast
  note f = epoch_body_files [OF assms s']
  have other: "\<forall>q. q \<noteq> ''runs/'' @ name (args s) @ ''/checkpoint.pth.tar''
            \<and> q \<noteq> ''runs/'' @ name (args s) @ ''/model_best.pth.tar'' \<longrightarrow> files s' q = files s q"
    using s' unfolding epoch_body_eq [OF assms]
    by (auto simp add: save_checkpoint_files save_checkpoint_frame checkpoint_path_def
        best_path_def)
  show ?thesis
    using s' f other
    by (simp add: checkpoint_dict_def checkpoint_path_def best_path_def)
qed

theorem checkpoint_written_each_epoch_witness:
  "optimizer demo_state = Some [sgd_group default_args]
   \<and> num_of (best_prec1 demo_state) = Some 0
   \<and> (\<exists>s'. epoch_body demo_extern 0 demo_state = Inr s'
        \<and> files s' ''runs/DenseNet_BC_100_12/checkpoint.pth.tar''
            = Some [''epoch'' \<mapsto> PInt 1, ''state_dict'' \<mapsto> PStateDict (model s'),
                    ''best_prec1'' \<mapsto> best_prec1 s']
        \<and> ''runs/DenseNet_BC_100_12/'' \<in> dirs s')"
proof -
  have h1: "optimizer demo_state = Some [sgd_group default_args]"
    by (simp add: demo_state_def)
  have h2: "num_of (best_prec1 demo_state) = Some 0"
    by (simp add: demo_state_def prepare_def)
  have n: "name (args demo_state) = ''DenseNet_BC_100_12''"
    by (simp add: demo_state_def prepare_def default_args_def)
  from checkpoint_written_each_epoch [OF h1 h2, of demo_extern 0] show ?thesis
    using h1 h2 n by auto
qed

section \<open>The phases of the driver\<close>

lemma train_phase_run:
  assumes "index_of (start_epoch (args s)) = Some first" "num_of (best_prec1 s) = Some b"
    and "imagenet (args s) \<or> test_loader s = Some l"
  shows "\<exists>s' ps. train_phase x s = Inr s'
           \<and> length ps = length (py_range first (epochs (args s)))
           \<and> trace s' = trace s @ [MakeOptimizer]
                 @ concat (map2 epoch_events (py_range first (epochs (args s))) ps)
                 @ [Print (MsgBestAccuracy (best_prec1 s'))]
                 @ (if imagenet (args s) then [] else [Test l])
           \<and> num_of (best_prec1 s') = Some (fold max ps b)
           \<and> args s' = args s \<and> test_loader s' = test_loader s"
proof -
  let ?s1 = "emit [MakeOptimizer] (s\<lparr>optimizer := Some [sgd_group (args s)]\<rparr>)"
  have o: "optimizer ?s1 = Some [sgd_group (args s)]" by (simp add: emit_simps)
  have n: "num_of (best_prec1 ?s1) = Some b" using assms(2) by (simp add: emit_simps)
  from epoch_loop_run [OF o n, of x "py_range first (epochs (args s))"]
  obtain s2 ps where r: "epoch_loop x (py_range first (epochs (args s))) ?s1 = Inr s2"
      "length ps = length (py_range first (epochs (args s)))"
      "trace s2 = trace ?s1 @ concat (map2 epoch_events (py_range first (epochs (args s))) ps)"
      "num_of (best_prec1 s2) = Some (fold max ps b)"
      "args s2 = args ?s1" "test_loader s2 = test_loader ?s1"
    by blast
  have a: "args s2 = args s" "test_loader s2 = test_loader s" "trace ?s1 = trace s @ [MakeOptimizer]"
    using r(5,6) by (simp_all add: emit_simps)
  show ?thesis
  proof (cases "imagenet (args s)")
    case True
    have "train_phase x s = Inr (emit [Print (MsgBestAccuracy (best_prec1 s2))] s2)"
      using assms(1) r(1) a True by (simp add: train_phase_def Let_def emit_simps)
    then show ?thesis using r(2,3,4) a True
      by (intro exI [of _ "emit [Print (MsgBestAccuracy (best_prec1 s2))] s2"] exI [of _ ps])
         (simp add: emit_simps)
  next
    case False
    then have tl: "test_loader s = Some l" using assms(3) by simp
    have "train_phase x s = Inr (emit [Test l] (emit [Print (MsgBestAccuracy (best_prec1 s2))] s2))"
      using assms(1) r(1) a False tl by (simp add: train_phase_def Let_def emit_simps)
    then show ?thesis using r(2,3,4) a False
      by (intro exI [of _ "emit [Test l] (emit [Print (MsgBestAccuracy (best_prec1 s2))] s2)"]
            exI [of _ ps])
         (simp add: emit_simps)
  qed
qed

lemma train_phase_no_unbound:
  assumes "imagenet (args s) \<or> test_loader s \<noteq> None"
  shows "train_phase x s \<noteq> Inl (UnboundLocalError n)"
proof -
  let ?s1 = "emit [MakeOptimizer] (s\<lparr>optimizer := Some [sgd_group (args s)]\<rparr>)"
  have o: "optimizer ?s1 = Some [sgd_group (args s)]" by (simp add: emit_simps)
  show ?thesis
  proof (cases "index_of (start_epoch (args s))")
    case None
    then show ?thesis by (simp add: train_phase_def Let_def emit_simps)
  next
    case (Some first)
    from epoch_loop_cases [OF o, of x "py_range first (epochs (args s))"]
    show ?thesis
    proof
      assume "epoch_loop x (py_range first (epochs (args s))) ?s1 = Inl TypeError"
      then show ?thesis using Some by (simp add: train_phase_def Let_def emit_simps)
    next
      assume "\<exists>s'. epoch_loop x (py_range first (epochs (args s))) ?s1 = Inr s'
                \<and> args s' = args ?s1 \<and> test_loader s' = test_loader ?s1"
      then obtain s2 where r: "epoch_loop x (py_range first (epochs (args s))) ?s1 = Inr s2"
        "args s2 = args ?s1" "test_loader s2 = test_loader ?s1" by blast
      then show ?thesis using Some assms
        by (auto simp add: train_phase_def Let_def emit_simps)
    qed
  qed
qed

lemma restore_from_cases:
  "restore_from ck s = Inl (KeyError ''epoch'') \<and> ck ''epoch'' = None
   \<or> restore_from ck s = Inl (KeyError ''best_prec1'') \<and> ck ''best_prec1'' = None
   \<or> restore_from ck s = Inl (KeyError ''state_dict'') \<and> ck ''state_dict'' = None
   \<or> restore_from ck s = Inl TypeError
   \<or> (\<exists>e b w. ck ''epoch'' = Some e \<and> ck ''best_prec1'' = Some b
          \<and> ck ''state_dict'' = Some (PStateDict w)
          \<and> restore_from ck s
              = Inr (s\<lparr>args := (args s)\<lparr>start_epoch := e\<rparr>, best_prec1 := b, model := w\<rparr>))"
  by (simp add: restore_from_def split: option.splits pyval.splits)

lemma restore_from_ok:
  assumes "ck ''epoch'' = Some e" "ck ''best_prec1'' = Some b" "ck ''state_dict'' = Some (PStateDict w)"
  shows "restore_from ck s = Inr (s\<lparr>args := (args s)\<lparr>start_epoch := e\<rparr>, best_prec1 := b, model := w\<rparr>)"
  using assms by (simp add: restore_from_def)

lemma restore_from_no_unbound: "restore_from ck s \<noteq> Inl (UnboundLocalError n)"
  using restore_from_cases [of ck s] by auto

lemma prepare_simps:
  "args (prepare x a fs ds) = a" "best_prec1 (prepare x a fs ds) = PFloat 0"
  "model (prepare x a fs ds) = init_model x (imagenet a)"
  "optimizer (prepare x a fs ds) = None"
  "test_loader (prepare x a fs ds) = (if imagenet a then None else Some TestLoader)"
  "files (prepare x a fs ds) = fs" "dirs (prepare x a fs ds) = ds"
  "filter is_test_pass (trace (prepare x a fs ds)) = []"
  "filter is_training (trace (prepare x a fs ds)) = []"
  "filter is_load (trace (prepare x a fs ds)) = []"
  by (simp_all add: prepare_def)

lemma resume_branch_none: "resume (args s) = [] \<Longrightarrow> resume_branch s = Inr s"
  by (simp add: resume_branch_def)

lemma resume_branch_missing:
  "resume (args s) \<noteq> [] \<Longrightarrow> files s (resume (args s)) = None
     \<Longrightarrow> resume_branch s = Inr (emit [Print (MsgNoCheckpoint (resume (args s)))] s)"
  by (simp add: resume_branch_def)

lemma resume_branch_found:
  assumes "resume (args s) \<noteq> []" "files s (resume (args s)) = Some ck"
    "ck ''epoch'' = Some e" "ck ''best_prec1'' = Some b" "ck ''state_dict'' = Some (PStateDict w)"
  shows "resume_branch s
     = Inr (s\<lparr>args := (args s)\<lparr>start_epoch := e\<rparr>, best_prec1 := b, model := w,
             trace := trace s @ [Print (MsgLoadingCheckpoint (resume (args s))),
                                 TorchLoad (resume (args s)),
                                 Print (MsgLoadedCheckpoint (resume (args s)) e)]\<rparr>)"
  using assms by (simp add: resume_branch_def restore_from_def emit_def)

lemma resume_branch_frame:
  assumes "resume_branch s = Inr s'"
  shows "test_loader s' = test_loader s \<and> optimizer s' = optimizer s
       \<and> files s' = files s \<and> dirs s' = dirs s
       \<and> args s' = (args s)\<lparr>start_epoch := start_epoch (args s')\<rparr>
       \<and> filter is_test_pass (trace s') = filter is_test_pass (trace s)
       \<and> filter is_training (trace s') = filter is_training (trace s)
       \<and> filter is_load (trace s')
           = filter is_load (trace s)
             @ (if resume (args s) \<noteq> [] \<and> files s (resume (args s)) \<noteq> None
                then [TorchLoad (resume (args s))] else [])"
proof (cases "resume (args s) = []")
  case True
  then have "s' = s" using assms by (simp add: resume_branch_none)
  then show ?thesis using True by simp
next
  case False
  show ?thesis
  proof (cases "files s (resume (args s))")
    case None
    then have "s' = emit [Print (MsgNoCheckpoint (resume (args s)))] s"
      using assms False by (simp add: resume_branch_missing)
    then show ?thesis using None False by (simp add: emit_simps)
  next
    case (Some ck)
    let ?s0 = "emit [Print (MsgLoadingCheckpoint (resume (args s))), TorchLoad (resume (args s))] s"
    have "resume_branch s = (case restore_from ck ?s0 of Inl e \<Rightarrow> Inl e
            | Inr t \<Rightarrow> Inr (emit [Print (MsgLoadedCheckpoint (resume (args t)) (the (ck ''epoch'')))] t))"
      using False Some by (simp add: resume_branch_def)
    with assms obtain t where t: "restore_from ck ?s0 = Inr t"
      by (cases "restore_from ck ?s0") simp_all
    with restore_from_cases [of ck ?s0]
    obtain e b w where c: "ck ''epoch'' = Some e" "ck ''best_prec1'' = Some b"
        "ck ''state_dict'' = Some (PStateDict w)"
      by auto
    from resume_branch_found [OF False Some c] assms
    have "s' = s\<lparr>args := (args s)\<lparr>start_epoch := e\<rparr>, best_prec1 := b, model := w,
             trace := trace s @ [Print (MsgLoadingCheckpoint (resume (args s))),
                                 TorchLoad (resume (args s)),
                                 Print (MsgLoadedCheckpoint (resume (args s)) e)]\<rparr>"
      by simp
    then show ?thesis using False Some by simp
  qed
qed

lemma resume_branch_no_unbound: "resume_branch s \<noteq> Inl (UnboundLocalError n)"
proof (cases "resume (args s) = []")
  case True
  then show ?thesis by (simp add: resume_branch_none)
next
  case False
  show ?thesis
  proof (cases "files s (resume (args s))")
    case None
    then show ?thesis using False by (simp add: resume_branch_missing)
  next
    case (Some ck)
    let ?s0 = "emit [Print (MsgLoadingCheckpoint (resume (args s))), TorchLoad (resume (args s))] s"
    have "resume_branch s = (case restore_from ck ?s0 of Inl e \<Rightarrow> Inl e
            | Inr t \<Rightarrow> Inr (emit [Print (MsgLoadedCheckpoint (resume (args t)) (the (ck ''epoch'')))] t))"
      using False Some by (simp add: resume_branch_def)
    then show ?thesis using restore_from_no_unbound [of ck ?s0 n]
      by (cases "restore_from ck ?s0") simp_all
  qed
qed

lemma test_branch_no_unbound:
  assumes "test_loader s \<noteq> None"
  shows "test_branch s \<noteq> Inl (UnboundLocalError n)"
proof -
  let ?p = "''runs/'' @ test (args s) @ ''/checkpoint.pth.tar''"
  let ?s1 = "s\<lparr>args := (args s)\<lparr>test := ?p\<rparr>\<rparr>"
  show ?thesis
  proof (cases "files s ?p")
    case None
    then show ?thesis by (simp add: test_branch_def Let_def)
  next
    case (Some ck)
    let ?s0 = "emit [Print (MsgLoadingModel ?p), TorchLoad ?p] ?s1"
    from assms obtain l where l: "test_loader s = Some l" by auto
    have eq: "test_branch s = (case restore_from ck ?s0 of Inl e \<Rightarrow> Inl e
            | Inr t \<Rightarrow> (case test_loader t of None \<Rightarrow> Inl (UnboundLocalError ''test_loader'')
                 | Some l \<Rightarrow> Inr (emit [Print (MsgLoadedModel (test (args t))), Test l] t)))"
      using Some by (simp add: test_branch_def Let_def)
    show ?thesis
    proof (cases "restore_from ck ?s0")
      case (Inl err)
      then show ?thesis using eq restore_from_no_unbound [of ck ?s0 n] by simp
    next
      case (Inr t)
      with restore_from_cases [of ck ?s0] have "test_loader t = test_loader ?s0" by auto
      then have "test_loader t = Some l" using l by (simp add: emit_simps)
      then show ?thesis using eq Inr by simp
    qed
  qed
qed

lemma test_branch_missing:
  assumes "files s (''runs/'' @ test (args s) @ ''/checkpoint.pth.tar'') = None"
  shows "test_branch s
     = Inr (s\<lparr>args := (args s)\<lparr>test := ''runs/'' @ test (args s) @ ''/checkpoint.pth.tar''\<rparr>,
             trace := trace s @ [Print (MsgNoModel (''runs/'' @ test (args s) @ ''/checkpoint.pth.tar''))]\<rparr>)"
  using assms by (simp add: test_branch_def Let_def emit_def)

lemma test_branch_found:
  assumes "files s (''runs/'' @ test (args s) @ ''/checkpoint.pth.tar'') = Some ck"
    "ck ''epoch'' = Some e" "ck ''best_prec1'' = Some b" "ck ''state_dict'' = Some (PStateDict w)"
    "test_loader s = Some l"
  shows "test_branch s
     = Inr (s\<lparr>args := (args s)\<lparr>test := ''runs/'' @ test (args s) @ ''/checkpoint.pth.tar'',
                                start_epoch := e\<rparr>,
             best_prec1 := b, model := w,
             trace := trace s @ [Print (MsgLoadingModel (''runs/'' @ test (args s) @ ''/checkpoint.pth.tar'')),
                                 TorchLoad (''runs/'' @ test (args s) @ ''/checkpoint.pth.tar''),
                                 Print (MsgLoadedModel (''runs/'' @ test (args s) @ ''/checkpoint.pth.tar'')),
                                 Test l]\<rparr>)"
  using assms by (simp add: test_branch_def Let_def emit_def restore_from_def)

lemma after_resume:
  assumes "resume_branch (prepare x a fs ds) = Inr s"
  shows "test (args s) = test a" "imagenet (args s) = imagenet a" "epochs (args s) = epochs a"
    "name (args s) = name a" "resume (args s) = resume a"
    "test_loader s = (if imagenet a then None else Some TestLoader)"
    "optimizer s = None" "files s = fs" "dirs s = ds"
    "filter is_test_pass (trace s) = []" "filter is_training (trace s) = []"
    "filter is_load (trace s)
       = (if resume a \<noteq> [] \<and> fs (resume a) \<noteq> None then [TorchLoad (resume a)] else [])"
proof -
  note f = resume_branch_frame [OF assms, unfolded prepare_simps]
  from f have a: "args s = a\<lparr>start_epoch := start_epoch (args s)\<rparr>" by simp
  show "test (args s) = test a" by (subst a) simp
  show "imagenet (args s) = imagenet a" by (subst a) simp
  show "epochs (args s) = epochs a" by (subst a) simp
  show "name (args s) = name a" by (subst a) simp
  show "resume (args s) = resume a" by (subst a) simp
  show "test_loader s = (if imagenet a then None else Some TestLoader)" using f by simp
  show "optimizer s = None" using f by simp
  show "files s = fs" using f by simp
  show "dirs s = ds" using f by simp
  show "filter is_test_pass (trace s) = []" using f by simp
  show "filter is_training (trace s) = []" using f by simp
  show "filter is_load (trace s)
       = (if resume a \<noteq> [] \<and> fs (resume a) \<noteq> None then [TorchLoad (resume a)] else [])"
    using f by simp
qed

lemma main_after_resume:
  assumes "resume_branch (prepare x a fs ds) = Inr s"
  shows "main x a fs ds = (if test a \<noteq> [] \<and> \<not> imagenet a then test_branch s else train_phase x s)"
  using assms after_resume(1,2) [OF assms] by (simp add: main_def)

lemma epoch_events_filters:
  "filter is_test_pass (concat (map2 epoch_events es ps)) = []"
  "filter is_load (concat (map2 epoch_events es ps)) = []"
  by (simp_all add: filter_concat epoch_events_def split_def)

lemma map2_py_range:
  assumes "length ps = length (py_range a b)"
  shows "map2 f (py_range a b) ps = map (\<lambda>i. f (a + int i) (ps ! i)) [0..<nat (b - a)]"
proof (rule nth_equalityI)
  show "length (map2 f (py_range a b) ps) = length (map (\<lambda>i. f (a + int i) (ps ! i)) [0..<nat (b - a)])"
    using assms by (simp add: py_range_length)
next
  fix i assume "i < length (map2 f (py_range a b) ps)"
  then have i: "i < length (py_range a b)" "i < length ps" "i < nat (b - a)"
    using assms by (simp_all add: py_range_length)
  then show "map2 f (py_range a b) ps ! i = map (\<lambda>i. f (a + int i) (ps ! i)) [0..<nat (b - a)] ! i"
    by (simp add: py_range_nth)
qed

lemma test_mode_missing:
  assumes "test a \<noteq> []" "\<not> imagenet a" "resume_branch (prepare x a fs ds) = Inr s"
    and "fs (''runs/'' @ test a @ ''/checkpoint.pth.tar'') = None"
  shows "\<exists>s'. main x a fs ds = Inr s'
     \<and> test (args s') = ''runs/'' @ test a @ ''/checkpoint.pth.tar''
     \<and> trace s' = trace s @ [Print (MsgNoModel (''runs/'' @ test a @ ''/checkpoint.pth.tar''))]
     \<and> optimizer s' = None
     \<and> filter is_training (trace s') = [] \<and> filter is_test_pass (trace s') = []"
proof -
  note r = after_resume [OF assms(3)]
  have "files s (''runs/'' @ test (args s) @ ''/checkpoint.pth.tar'') = None"
    using assms(4) r(1,8) by simp
  from test_branch_missing [OF this] main_after_resume [OF assms(3)] assms(1,2)
  show ?thesis using r by simp
qed

lemma test_mode_found:
  assumes "test a \<noteq> []" "\<not> imagenet a" "resume_branch (prepare x a fs ds) = Inr s"
    and "fs (''runs/'' @ test a @ ''/checkpoint.pth.tar'') = Some ck"
    and "ck ''epoch'' = Some e" "ck ''best_prec1'' = Some b" "ck ''state_dict'' = Some (PStateDict w)"
  shows "\<exists>s'. main x a fs ds = Inr s'
     \<and> test (args s') = ''runs/'' @ test a @ ''/checkpoint.pth.tar''
     \<and> model s' = w
     \<and> trace s' = trace s @ [Print (MsgLoadingModel (''runs/'' @ test a @ ''/checkpoint.pth.tar'')),
                              TorchLoad (''runs/'' @ test a @ ''/checkpoint.pth.tar''),
                              Print (MsgLoadedModel (''runs/'' @ test a @ ''/checkpoint.pth.tar'')),
                              Test TestLoader]
     \<and> optimizer s' = None
     \<and> filter is_training (trace s') = [] \<and> filter is_test_pass (trace s') = [Test TestLoader]"
proof -
  note r = after_resume [OF assms(3)]
  have f: "files s (''runs/'' @ test (args s) @ ''/checkpoint.pth.tar'') = Some ck"
    using assms(4) r(1,8) by simp
  have l: "test_loader s = Some TestLoader" using r(6) assms(2) by simp
  from test_branch_found [OF f assms(5,6,7) l] main_after_resume [OF assms(3)] assms(1,2)
  show ?thesis using r by simp
qed

lemma test_mode_any:
  assumes "test a \<noteq> []" "\<not> imagenet a" "resume_branch (prepare x a fs ds) = Inr s"
    and "main x a fs ds = Inr s'"
  shows "test (args s') = ''runs/'' @ test a @ ''/checkpoint.pth.tar''
     \<and> optimizer s' = None \<and> filter is_training (trace s') = []
     \<and> length (filter is_test_pass (trace s')) \<le> 1"
proof (cases "fs (''runs/'' @ test a @ ''/checkpoint.pth.tar'')")
  case None
  from test_mode_missing [OF assms(1,2,3) None] assms(4) show ?thesis by auto
next
  case (Some ck)
  note r = after_resume [OF assms(3)]
  let ?p = "''runs/'' @ test (args s) @ ''/checkpoint.pth.tar''"
  let ?s0 = "emit [Print (MsgLoadingModel ?p), TorchLoad ?p] (s\<lparr>args := (args s)\<lparr>test := ?p\<rparr>\<rparr>)"
  have f: "files s ?p = Some ck" using Some r(1,8) by simp
  have m: "main x a fs ds = test_branch s" using main_after_resume [OF assms(3)] assms(1,2) by simp
  have eq: "test_branch s = (case restore_from ck ?s0 of Inl e \<Rightarrow> Inl e
            | Inr t \<Rightarrow> (case test_loader t of None \<Rightarrow> Inl (UnboundLocalError ''test_loader'')
                 | Some l \<Rightarrow> Inr (emit [Print (MsgLoadedModel (test (args t))), Test l] t)))"
    using f by (simp add: test_branch_def Let_def)
  from assms(4) m eq obtain t where t: "restore_from ck ?s0 = Inr t"
    by (cases "restore_from ck ?s0") simp_all
  with restore_from_cases [of ck ?s0]
  obtain e b w where c: "ck ''epoch'' = Some e" "ck ''best_prec1'' = Some b"
      "ck ''state_dict'' = Some (PStateDict w)"
    by auto
  from test_mode_found [OF assms(1,2,3) Some c] assms(4) show ?thesis by auto
qed

lemma training_mode:
  assumes "test a = [] \<or> imagenet a" "resume_branch (prepare x a fs ds) = Inr s"
    and "index_of (start_epoch (args s)) = Some first" "num_of (best_prec1 s) = Some b"
  shows "\<exists>s' ps. main x a fs ds = Inr s'
     \<and> length ps = length (py_range first (epochs a))
     \<and> trace s' = trace s @ [MakeOptimizer]
           @ concat (map2 epoch_events (py_range first (epochs a)) ps)
           @ [Print (MsgBestAccuracy (best_prec1 s'))]
           @ (if imagenet a then [] else [Test TestLoader])
     \<and> num_of (best_prec1 s') = Some (Max (set (b # ps)))
     \<and> test (args s') = test a
     \<and> filter is_test_pass (trace s') = (if imagenet a then [] else [Test TestLoader])
     \<and> filter is_load (trace s')
         = (if resume a \<noteq> [] \<and> fs (resume a) \<noteq> None then [TorchLoad (resume a)] else [])"
proof -
  note r = after_resume [OF assms(2)]
  have l: "imagenet (args s) \<or> test_loader s = Some TestLoader" using r(2,6) by simp
  from train_phase_run [OF assms(3,4) l, of x] obtain s' ps where
    t: "train_phase x s = Inr s'" "length ps = length (py_range first (epochs (args s)))"
       "trace s' = trace s @ [MakeOptimizer]
                 @ concat (map2 epoch_events (py_range first (epochs (args s))) ps)
                 @ [Print (MsgBestAccuracy (best_prec1 s'))]
                 @ (if imagenet (args s) then [] else [Test TestLoader])"
       "num_of (best_prec1 s') = Some (fold max ps b)" "args s' = args s"
    by blast
  have m: "main x a fs ds = Inr s'" using main_after_resume [OF assms(2)] assms(1) t(1) by auto
  have b: "num_of (best_prec1 s') = Some (Max (set (b # ps)))"
    using t(4) by (simp only: fold_max_Max)
  have tp: "filter is_test_pass (trace s') = (if imagenet a then [] else [Test TestLoader])"
    unfolding t(3) using r(2,10) by (simp add: epoch_events_filters)
  have ld: "filter is_load (trace s')
         = (if resume a \<noteq> [] \<and> fs (resume a) \<noteq> None then [TorchLoad (resume a)] else [])"
    unfolding t(3) using r(12) by (simp add: epoch_events_filters)
  show ?thesis
    using m t(2,3,5) b tp ld r(1,2,3)
    by (intro exI [of _ s'] exI [of _ ps]) simp
qed

section \<open>The epoch loop\<close>

text \<open>
  C1.  Entered with an integer \<open>start_epoch\<close> of value \<open>first\<close> and a numeric \<open>best_prec1\<close>, the
  training phase returns, and what it adds to the history of calls is: the construction of
  the optimizer; then for each epoch \<open>first\<close>, \<open>first + 1\<close>, ... below \<open>args.epochs\<close>, in
  increasing order and none left out, exactly the four calls \<open>adjust_learning_rate\<close>,
  \<open>train\<close> on the train loader, \<open>validate\<close> on the validation loader (returning \<open>ps ! i\<close>) and
  \<open>save_checkpoint\<close>; then the report of the best precision and, outside ImageNet mode, the
  final test pass.
\<close>

theorem epoch_loop_order:
  assumes "index_of (start_epoch (args s)) = Some first" "num_of (best_prec1 s) = Some b"
    and "imagenet (args s) \<or> test_loader s = Some l"
  shows "\<exists>s' ps. train_phase x s = Inr s'
           \<and> length ps = nat (epochs (args s) - first)
           \<and> trace s' = trace s @ [MakeOptimizer]
                 @ concat (map (\<lambda>i. epoch_events (first + int i) (ps ! i))
                             [0..<nat (epochs (args s) - first)])
                 @ [Print (MsgBestAccuracy (best_prec1 s'))]
                 @ (if imagenet (args s) then [] else [Test l])"
proof -
  from train_phase_run [OF assms, of x] obtain s' ps where
    r: "train_phase x s = Inr s'" "length ps = length (py_range first (epochs (args s)))"
       "trace s' = trace s @ [MakeOptimizer]
                 @ concat (map2 epoch_events (py_range first (epochs (args s))) ps)
                 @ [Print (MsgBestAccuracy (best_prec1 s'))]
                 @ (if imagenet (args s) then [] else [Test l])"
    by blast
  have "length ps = nat (epochs (args s) - first)" using r(2) by (simp add: py_range_length)
  moreover note r(1) r(3) [unfolded map2_py_range [OF r(2)]]
  ultimately show ?thesis by blast
qed

theorem epoch_loop_order_witness:
  "index_of (start_epoch (args demo_state)) = Some 0
   \<and> num_of (best_prec1 demo_state) = Some 0
   \<and> (imagenet (args demo_state) \<or> test_loader demo_state = Some TestLoader)
   \<and> (\<exists>s' ps. train_phase demo_extern demo_state = Inr s'
           \<and> length ps = nat (epochs (args demo_state) - 0)
           \<and> trace s' = trace demo_state @ [MakeOptimizer]
                 @ concat (map (\<lambda>i. epoch_events (0 + int i) (ps ! i))
                             [0..<nat (epochs (args demo_state) - 0)])
                 @ [Print (MsgBestAccuracy (best_prec1 s'))]
                 @ (if imagenet (args demo_state) then [] else [Test TestLoader]))"
proof -
  have h1: "index_of (start_epoch (args demo_state)) = Some 0"
    by (simp add: demo_state_def prepare_def default_args_def)
  have h2: "num_of (best_prec1 demo_state) = Some 0"
    by (simp add: demo_state_def prepare_def)
  have h3: "imagenet (args demo_state) \<or> test_loader demo_state = Some TestLoader"
    by (simp add: demo_state_def prepare_def default_args_def)
  from epoch_loop_order [OF h1 h2 h3, of demo_extern] show ?thesis
    using h1 h2 h3 by simp
qed

section \<open>Unbound locals\<close>

text \<open>
  C10.  \<open>test_loader\<close> is unbound after the set-up exactly in ImageNet mode, and no run of
  \<open>main\<close>, whatever the arguments and the files on disk, ends in an access to an unbound
  local.
\<close>

theorem test_loader_never_unbound:
  "main x a fs ds \<noteq> Inl (UnboundLocalError n)
   \<and> (test_loader (prepare x a fs ds) = None) = imagenet a"
proof -
  have "main x a fs ds \<noteq> Inl (UnboundLocalError n)"
  proof (cases "resume_branch (prepare x a fs ds)")
    case (Inl err)
    then show ?thesis using resume_branch_no_unbound [of "prepare x a fs ds" n]
      by (simp add: main_def)
  next
    case (Inr s)
    from resume_branch_frame [OF Inr] have
      f: "test_loader s = test_loader (prepare x a fs ds)"
         "args s = a\<lparr>start_epoch := start_epoch (args s)\<rparr>"
      by (simp_all add: prepare_simps)
    have "imagenet (args s) = imagenet a" by (subst f(2)) simp
    then have tl: "imagenet (args s) \<or> test_loader s \<noteq> None" using f(1) by (simp add: prepare_simps)
    show ?thesis
    proof (cases "test (args s) \<noteq> [] \<and> \<not> imagenet (args s)")
      case True
      then have "test_loader s \<noteq> None" using tl by simp
      moreover have "main x a fs ds = test_branch s" using Inr True by (simp add: main_def)
      ultimately show ?thesis using test_branch_no_unbound by simp
    next
      case False
      then have "main x a fs ds = train_phase x s" using Inr by (auto simp add: main_def)
      then show ?thesis using train_phase_no_unbound [OF tl] by simp
    qed
  qed
  then show ?thesis by (simp add: prepare_simps)
qed

section \<open>Saving and restoring\<close>

lemma restore_from_reads:
  assumes "ck' ''epoch'' = ck ''epoch''" "ck' ''best_prec1'' = ck ''best_prec1''"
    "ck' ''state_dict'' = ck ''state_dict''"
  shows "restore_from ck' s = restore_from ck s"
  unfolding restore_from_def assms by (rule refl)

lemma restore_from_needs:
  assumes "k \<in> {''epoch'', ''state_dict'', ''best_prec1''}"
    and "ck ''epoch'' \<noteq> None" "ck ''best_prec1'' \<noteq> None" "ck ''state_dict'' \<noteq> None"
  shows "restore_from (ck(k := None)) s = Inl (KeyError k)"
proof -
  from assms(2,3,4) obtain v1 v2 v3 where
    v: "ck ''epoch'' = Some v1" "ck ''best_prec1'' = Some v2" "ck ''state_dict'' = Some v3" by auto
  from assms(1) consider "k = ''epoch''" | "k = ''state_dict''" | "k = ''best_prec1''"
    by auto
  then show ?thesis
  proof cases
    case 1
    then show ?thesis by (simp add: restore_from_def)
  next
    case 2
    then show ?thesis using v by (simp add: restore_from_def)
  next
    case 3
    then show ?thesis using v by (simp add: restore_from_def)
  qed
qed

lemma dom_checkpoint_dict: "dom (checkpoint_dict e w b) = {''epoch'', ''state_dict'', ''best_prec1''}"
  by (auto simp add: checkpoint_dict_def)

text \<open>
  C5.  After the iteration for epoch \<open>e\<close> has saved its checkpoint, the file holds exactly the
  keys \<open>'epoch'\<close>, \<open>'state_dict'\<close> and \<open>'best_prec1'\<close>; reading it back needs each of them (without
  any one the read fails with a \<open>KeyError\<close> for it) and depends on nothing else; and a run
  that resumes from this file starts with \<open>start_epoch = e + 1\<close>, the \<open>best_prec1\<close> recorded at
  save time and the saved weights.
\<close>

theorem checkpoint_roundtrip:
  assumes "optimizer s = Some g" "num_of (best_prec1 s) = Some b"
    and "resume a = ''runs/'' @ name (args s) @ ''/checkpoint.pth.tar''"
  shows "\<exists>s' ck t. epoch_body x e s = Inr s' \<and> files s' (resume a) = Some ck
     \<and> dom ck = {''epoch'', ''state_dict'', ''best_prec1''}
     \<and> (\<forall>k \<in> dom ck. \<forall>u. restore_from (ck(k := None)) u = Inl (KeyError k))
     \<and> (\<forall>ck' u. ck' ''epoch'' = ck ''epoch'' \<and> ck' ''best_prec1'' = ck ''best_prec1''
            \<and> ck' ''state_dict'' = ck ''state_dict'' \<longrightarrow> restore_from ck' u = restore_from ck u)
     \<and> resume_branch (prepare y a (files s') (dirs s')) = Inr t
     \<and> start_epoch (args t) = PInt (e + 1)
     \<and> best_prec1 t = best_prec1 s'
     \<and> model t = model s'"
proof -
  from epoch_body_Inr [OF assms(1,2), of x e] obtain s' where s': "epoch_body x e s = Inr s'"
    by blast
  let ?ck = "checkpoint_dict e (model s') (best_prec1 s')"
  let ?p = "prepare y a (files s') (dirs s')"
  have f: "files s' (resume a) = Some ?ck"
    using epoch_body_files(1) [OF assms(1,2) s'] assms(3) by (simp add: checkpoint_path_def)
  have k: "?ck ''epoch'' = Some (PInt (e + 1))" "?ck ''best_prec1'' = Some (best_prec1 s')"
    "?ck ''state_dict'' = Some (PStateDict (model s'))"
    by (simp_all add: checkpoint_dict_def)
  have ne: "resume (args ?p) \<noteq> []" using assms(3) by (simp add: prepare_simps)
  have fp: "files ?p (resume (args ?p)) = Some ?ck" using f by (simp add: prepare_simps)
  let ?t = "?p\<lparr>args := (args ?p)\<lparr>start_epoch := PInt (e + 1)\<rparr>, best_prec1 := best_prec1 s',
             model := model s',
             trace := trace ?p @ [Print (MsgLoadingCheckpoint (resume (args ?p))),
                                 TorchLoad (resume (args ?p)),
                                 Print (MsgLoadedCheckpoint (resume (args ?p)) (PInt (e + 1)))]\<rparr>"
  have r: "resume_branch ?p = Inr ?t" by (rule resume_branch_found [OF ne fp k])
  have needs: "\<forall>k \<in> dom ?ck. \<forall>u. restore_from (?ck(k := None)) u = Inl (KeyError k)"
  proof (intro ballI allI)
    fix k u assume "k \<in> dom ?ck"
    then have "k \<in> {''epoch'', ''state_dict'', ''best_prec1''}" by (simp only: dom_checkpoint_dict)
    then show "restore_from (?ck(k := None)) u = Inl (KeyError k)"
      by (rule restore_from_needs) (simp_all add: k)
  qed
  have reads: "\<forall>ck' u. ck' ''epoch'' = ?ck ''epoch'' \<and> ck' ''best_prec1'' = ?ck ''best_prec1''
            \<and> ck' ''state_dict'' = ?ck ''state_dict'' \<longrightarrow> restore_from ck' u = restore_from ?ck u"
    using restore_from_reads by blast
  have d: "dom ?ck = {''epoch'', ''state_dict'', ''best_prec1''}" by (rule dom_checkpoint_dict)
  have v: "start_epoch (args ?t) = PInt (e + 1)" "best_prec1 ?t = best_prec1 s'" "model ?t = model s'"
    by simp_all
  show ?thesis
    apply (rule exI [of _ s'], rule exI [of _ ?ck], rule exI [of _ ?t])
    apply (intro conjI)
            apply (rule s')
           apply (rule f)
          apply (rule d)
         apply (rule needs)
        apply (rule reads)
       apply (rule r)
      apply (rule v(1))
     apply (rule v(2))
    apply (rule v(3))
    done
qed

theorem checkpoint_roundtrip_witness:
  "optimizer demo_state = Some [sgd_group default_args]
   \<and> num_of (best_prec1 demo_state) = Some 0
   \<and> resume (default_args\<lparr>resume := ''runs/DenseNet_BC_100_12/checkpoint.pth.tar''\<rparr> :: nat namespace)
       = ''runs/'' @ name (args demo_state) @ ''/checkpoint.pth.tar''
   \<and> (\<exists>s' t. epoch_body demo_extern 4 demo_state = Inr s'
        \<and> resume_branch (prepare demo_extern
              (default_args\<lparr>resume := ''runs/DenseNet_BC_100_12/checkpoint.pth.tar''\<rparr>)
              (files s') (dirs s')) = Inr t
        \<and> start_epoch (args t) = PInt (4 + 1)
        \<and> best_prec1 t = best_prec1 s'
        \<and> model t = model s')"
proof -
  have h1: "optimizer demo_state = Some [sgd_group default_args]"
    by (simp add: demo_state_def)
  have h2: "num_of (best_prec1 demo_state) = Some 0"
    by (simp add: demo_state_def prepare_def)
  have h3: "resume (default_args\<lparr>resume := ''runs/DenseNet_BC_100_12/checkpoint.pth.tar''\<rparr> :: nat namespace)
       = ''runs/'' @ name (args demo_state) @ ''/checkpoint.pth.tar''"
    by (simp add: demo_state_def prepare_def default_args_def)
  from checkpoint_roundtrip [OF h1 h2 h3, of demo_extern 4 demo_extern]
  have "\<exists>s' t. epoch_body demo_extern 4 demo_state = Inr s'
        \<and> resume_branch (prepare demo_extern
              (default_args\<lparr>resume := ''runs/DenseNet_BC_100_12/checkpoint.pth.tar''\<rparr>)
              (files s') (dirs s')) = Inr t
        \<and> start_epoch (args t) = PInt (4 + 1)
        \<and> best_prec1 t = best_prec1 s'
        \<and> model t = model s'"
    by (elim exE conjE, intro exI conjI) assumption+
  then show ?thesis using h1 h2 h3 by (intro conjI)
qed

section \<open>Resuming\<close>

text \<open>
  C6.  With \<open>--resume\<close> given: if the path names a file holding a checkpoint, the resume branch
  returns with \<open>start_epoch\<close>, \<open>best_prec1\<close> and the weights taken from it, before any call of
  the training phase, and \<open>main\<close> goes on from that state; if the path names no file, the
  branch prints the not-found message and changes nothing else, so \<open>start_epoch\<close> is the one
  of the command line and \<open>best_prec1\<close> is 0, and \<open>main\<close> goes on from there: in a training
  run it returns without an error after the epochs from the command-line \<open>start_epoch\<close> on,
  with the best precision being the maximum of 0 and the precisions of these epochs.
\<close>

theorem resume_behaviour:
  assumes "resume a \<noteq> []"
  shows "(\<forall>ck e b w. fs (resume a) = Some ck \<and> ck ''epoch'' = Some e \<and> ck ''best_prec1'' = Some b
             \<and> ck ''state_dict'' = Some (PStateDict w)
          \<longrightarrow> (\<exists>s. resume_branch (prepare x a fs ds) = Inr s
                 \<and> start_epoch (args s) = e \<and> best_prec1 s = b \<and> model s = w
                 \<and> filter is_training (trace s) = []
                 \<and> main x a fs ds
                     = (if test a \<noteq> [] \<and> \<not> imagenet a then test_branch s else train_phase x s)))
       \<and> (fs (resume a) = None
          \<longrightarrow> (\<exists>s. resume_branch (prepare x a fs ds) = Inr s
                 \<and> trace s = trace (prepare x a fs ds) @ [Print (MsgNoCheckpoint (resume a))]
                 \<and> start_epoch (args s) = start_epoch a \<and> best_prec1 s = PFloat 0
                 \<and> model s = init_model x (imagenet a)
                 \<and> main x a fs ds
                     = (if test a \<noteq> [] \<and> \<not> imagenet a then test_branch s else train_phase x s)
                 \<and> (\<forall>first. index_of (start_epoch a) = Some first \<and> (test a = [] \<or> imagenet a)
                      \<longrightarrow> (\<exists>s' ps. main x a fs ds = Inr s'
                             \<and> length ps = length (py_range first (epochs a))
                             \<and> trace s' = trace s @ [MakeOptimizer]
                                   @ concat (map2 epoch_events (py_range first (epochs a)) ps)
                                   @ [Print (MsgBestAccuracy (best_prec1 s'))]
                                   @ (if imagenet a then [] else [Test TestLoader])
                             \<and> num_of (best_prec1 s') = Some (Max (set (0 # ps)))))))"
proof (intro conjI allI impI)
  fix ck e b w
  assume c: "fs (resume a) = Some ck \<and> ck ''epoch'' = Some e \<and> ck ''best_prec1'' = Some b
             \<and> ck ''state_dict'' = Some (PStateDict w)"
  let ?p = "prepare x a fs ds"
  have ne: "resume (args ?p) \<noteq> []" using assms by (simp add: prepare_simps)
  have f: "files ?p (resume (args ?p)) = Some ck" using c by (simp add: prepare_simps)
  let ?s = "?p\<lparr>args := (args ?p)\<lparr>start_epoch := e\<rparr>, best_prec1 := b, model := w,
             trace := trace ?p @ [Print (MsgLoadingCheckpoint (resume (args ?p))),
                                 TorchLoad (resume (args ?p)),
                                 Print (MsgLoadedCheckpoint (resume (args ?p)) e)]\<rparr>"
  have r: "resume_branch ?p = Inr ?s"
    using resume_branch_found [OF ne f] c by blast
  have v: "start_epoch (args ?s) = e" "best_prec1 ?s = b" "model ?s = w" by simp_all
  show "\<exists>s. resume_branch ?p = Inr s
                 \<and> start_epoch (args s) = e \<and> best_prec1 s = b \<and> model s = w
                 \<and> filter is_training (trace s) = []
                 \<and> main x a fs ds
                     = (if test a \<noteq> [] \<and> \<not> imagenet a then test_branch s else train_phase x s)"
    apply (rule exI [of _ ?s])
    apply (intro conjI)
         apply (rule r)
        apply (rule v(1))
       apply (rule v(2))
      apply (rule v(3))
     apply (rule after_resume(11) [OF r])
    apply (rule main_after_resume [OF r])
    done
next
  assume n: "fs (resume a) = None"
  let ?p = "prepare x a fs ds"
  let ?s = "emit [Print (MsgNoCheckpoint (resume a))] ?p"
  have r: "resume_branch ?p = Inr ?s"
    using resume_branch_missing [of ?p] assms n by (simp add: prepare_simps)
  have v: "trace ?s = trace ?p @ [Print (MsgNoCheckpoint (resume a))]"
    "start_epoch (args ?s) = start_epoch a" "best_prec1 ?s = PFloat 0"
    "model ?s = init_model x (imagenet a)"
    by (simp_all add: emit_simps prepare_simps)
  have t: "\<forall>first. index_of (start_epoch a) = Some first \<and> (test a = [] \<or> imagenet a)
                      \<longrightarrow> (\<exists>s' ps. main x a fs ds = Inr s'
                             \<and> length ps = length (py_range first (epochs a))
                             \<and> trace s' = trace ?s @ [MakeOptimizer]
                                   @ concat (map2 epoch_events (py_range first (epochs a)) ps)
                                   @ [Print (MsgBestAccuracy (best_prec1 s'))]
                                   @ (if imagenet a then [] else [Test TestLoader])
                             \<and> num_of (best_prec1 s') = Some (Max (set (0 # ps))))"
  proof (intro allI impI)
    fix first
    assume h: "index_of (start_epoch a) = Some first \<and> (test a = [] \<or> imagenet a)"
    then have i: "index_of (start_epoch (args ?s)) = Some first" using v(2) by simp
    have b: "num_of (best_prec1 ?s) = Some 0" using v(3) by simp
    from h have m: "test a = [] \<or> imagenet a" by simp
    from training_mode [OF m r i b] obtain s' ps where
      "main x a fs ds = Inr s'" "length ps = length (py_range first (epochs a))"
      "trace s' = trace ?s @ [MakeOptimizer]
           @ concat (map2 epoch_events (py_range first (epochs a)) ps)
           @ [Print (MsgBestAccuracy (best_prec1 s'))]
           @ (if imagenet a then [] else [Test TestLoader])"
      "num_of (best_prec1 s') = Some (Max (set (0 # ps)))"
      by blast
    then show "\<exists>s' ps. main x a fs ds = Inr s'
                             \<and> length ps = length (py_range first (epochs a))
                             \<and> trace s' = trace ?s @ [MakeOptimizer]
                                   @ concat (map2 epoch_events (py_range first (epochs a)) ps)
                                   @ [Print (MsgBestAccuracy (best_prec1 s'))]
                                   @ (if imagenet a then [] else [Test TestLoader])
                             \<and> num_of (best_prec1 s') = Some (Max (set (0 # ps)))"
      by blast
  qed
  show "\<exists>s. resume_branch ?p = Inr s
                 \<and> trace s = trace ?p @ [Print (MsgNoCheckpoint (resume a))]
                 \<and> start_epoch (args s) = start_epoch a \<and> best_prec1 s = PFloat 0
                 \<and> model s = init_model x (imagenet a)
                 \<and> main x a fs ds
                     = (if test a \<noteq> [] \<and> \<not> imagenet a then test_branch s else train_phase x s)
                 \<and> (\<forall>first. index_of (start_epoch a) = Some first \<and> (test a = [] \<or> imagenet a)
                      \<longrightarrow> (\<exists>s' ps. main x a fs ds = Inr s'
                             \<and> length ps = length (py_range first (epochs a))
                             \<and> trace s' = trace s @ [MakeOptimizer]
                                   @ concat (map2 epoch_events (py_range first (epochs a)) ps)
                                   @ [Print (MsgBestAccuracy (best_prec1 s'))]
                                   @ (if imagenet a then [] else [Test TestLoader])
                             \<and> num_of (best_prec1 s') = Some (Max (set (0 # ps)))))"
    apply (rule exI [of _ ?s])
    apply (intro conjI)
          apply (rule r)
         apply (rule v(1))
        apply (rule v(2))
       apply (rule v(3))
      apply (rule v(4))
     apply (rule main_after_resume [OF r])
    apply (rule t)
    done
qed

theorem resume_behaviour_witness:
  "resume resume_args \<noteq> []
   \<and> (\<exists>s. resume_branch (prepare demo_extern resume_args demo_files {}) = Inr s
         \<and> start_epoch (args s) = PInt 7 \<and> best_prec1 s = PFloat (9 / 10) \<and> model s = 42)
   \<and> (\<exists>s. resume_branch (prepare demo_extern resume_args Map.empty {}) = Inr s
         \<and> start_epoch (args s) = start_epoch resume_args \<and> best_prec1 s = PFloat 0)"
proof -
  have h: "resume resume_args \<noteq> []" by (simp add: resume_args_def)
  have c: "demo_files (resume resume_args) = Some demo_checkpoint \<and> demo_checkpoint ''epoch'' = Some (PInt 7)
      \<and> demo_checkpoint ''best_prec1'' = Some (PFloat (9 / 10))
      \<and> demo_checkpoint ''state_dict'' = Some (PStateDict 42)"
    by (simp add: resume_args_def demo_files_def demo_checkpoint_def)
  have n: "(Map.empty :: string \<rightharpoonup> nat pydict) (resume resume_args) = None" by simp
  from resume_behaviour [OF h, where fs = demo_files and x = demo_extern and ds = "{}",
      THEN conjunct1, rule_format, OF c]
  have 1: "\<exists>s. resume_branch (prepare demo_extern resume_args demo_files {}) = Inr s
         \<and> start_epoch (args s) = PInt 7 \<and> best_prec1 s = PFloat (9 / 10) \<and> model s = 42"
    by (elim exE conjE, intro exI conjI) assumption+
  from resume_behaviour [OF h, where fs = Map.empty and x = demo_extern and ds = "{}",
      THEN conjunct2, rule_format, OF n]
  have 2: "\<exists>s. resume_branch (prepare demo_extern resume_args Map.empty {}) = Inr s
         \<and> start_epoch (args s) = start_epoch resume_args \<and> best_prec1 s = PFloat 0"
    by (elim exE conjE, intro exI conjI) assumption+
  show ?thesis using h 1 2 by (intro conjI)
qed

section \<open>Test mode\<close>

text \<open>
  C7.  Outside ImageNet mode.  With \<open>--test\<close> non-empty, \<open>args.test\<close> becomes
  \<open>runs/{args.test}/checkpoint.pth.tar\<close>; if no such file exists \<open>main\<close> prints a message and
  returns; if it holds a checkpoint, \<open>main\<close> loads it, runs one test pass on the test loader
  and returns; however \<open>main\<close> returns, no optimizer was constructed, no call of the training
  phase was made and at most one test pass ran.  With \<open>--test\<close> empty, the training phase
  runs all its epochs and then exactly one test pass, which is the last call.
\<close>

theorem test_mode_and_final_test:
  assumes "\<not> imagenet a" "resume_branch (prepare x a fs ds) = Inr s"
  shows "(test a \<noteq> [] \<longrightarrow>
            (fs (''runs/'' @ test a @ ''/checkpoint.pth.tar'') = None
               \<longrightarrow> (\<exists>s'. main x a fs ds = Inr s'
                      \<and> test (args s') = ''runs/'' @ test a @ ''/checkpoint.pth.tar''
                      \<and> trace s' = trace s
                           @ [Print (MsgNoModel (''runs/'' @ test a @ ''/checkpoint.pth.tar''))]
                      \<and> filter is_test_pass (trace s') = []))
          \<and> (\<forall>ck e b w. fs (''runs/'' @ test a @ ''/checkpoint.pth.tar'') = Some ck
                 \<and> ck ''epoch'' = Some e \<and> ck ''best_prec1'' = Some b
                 \<and> ck ''state_dict'' = Some (PStateDict w)
               \<longrightarrow> (\<exists>s'. main x a fs ds = Inr s'
                      \<and> test (args s') = ''runs/'' @ test a @ ''/checkpoint.pth.tar''
                      \<and> model s' = w
                      \<and> trace s' = trace s
                           @ [Print (MsgLoadingModel (''runs/'' @ test a @ ''/checkpoint.pth.tar'')),
                              TorchLoad (''runs/'' @ test a @ ''/checkpoint.pth.tar''),
                              Print (MsgLoadedModel (''runs/'' @ test a @ ''/checkpoint.pth.tar'')),
                              Test TestLoader]
                      \<and> filter is_test_pass (trace s') = [Test TestLoader]))
          \<and> (\<forall>s'. main x a fs ds = Inr s'
               \<longrightarrow> test (args s') = ''runs/'' @ test a @ ''/checkpoint.pth.tar''
                   \<and> optimizer s' = None \<and> filter is_training (trace s') = []
                   \<and> length (filter is_test_pass (trace s')) \<le> 1))
       \<and> (test a = [] \<longrightarrow>
            (\<forall>first b. index_of (start_epoch (args s)) = Some first \<and> num_of (best_prec1 s) = Some b
               \<longrightarrow> (\<exists>s' ps. main x a fs ds = Inr s'
                      \<and> length ps = length (py_range first (epochs a))
                      \<and> trace s' = trace s @ [MakeOptimizer]
                           @ concat (map2 epoch_events (py_range first (epochs a)) ps)
                           @ [Print (MsgBestAccuracy (best_prec1 s')), Test TestLoader]
                      \<and> filter is_test_pass (trace s') = [Test TestLoader])))"
proof (intro conjI impI allI)
  assume t: "test a \<noteq> []" and n: "fs (''runs/'' @ test a @ ''/checkpoint.pth.tar'') = None"
  from test_mode_missing [OF t assms n]
  show "\<exists>s'. main x a fs ds = Inr s'
          \<and> test (args s') = ''runs/'' @ test a @ ''/checkpoint.pth.tar''
          \<and> trace s' = trace s @ [Print (MsgNoModel (''runs/'' @ test a @ ''/checkpoint.pth.tar''))]
          \<and> filter is_test_pass (trace s') = []"
    by (elim exE conjE, intro exI conjI) assumption+
next
  fix ck e b w
  assume t: "test a \<noteq> []"
    and c: "fs (''runs/'' @ test a @ ''/checkpoint.pth.tar'') = Some ck
                 \<and> ck ''epoch'' = Some e \<and> ck ''best_prec1'' = Some b
                 \<and> ck ''state_dict'' = Some (PStateDict w)"
  from c have c1: "fs (''runs/'' @ test a @ ''/checkpoint.pth.tar'') = Some ck"
    and c2: "ck ''epoch'' = Some e" and c3: "ck ''best_prec1'' = Some b"
    and c4: "ck ''state_dict'' = Some (PStateDict w)" by simp_all
  from test_mode_found [OF t assms c1 c2 c3 c4]
  show "\<exists>s'. main x a fs ds = Inr s'
          \<and> test (args s') = ''runs/'' @ test a @ ''/checkpoint.pth.tar''
          \<and> model s' = w
          \<and> trace s' = trace s
               @ [Print (MsgLoadingModel (''runs/'' @ test a @ ''/checkpoint.pth.tar'')),
                  TorchLoad (''runs/'' @ test a @ ''/checkpoint.pth.tar''),
                  Print (MsgLoadedModel (''runs/'' @ test a @ ''/checkpoint.pth.tar'')),
                  Test TestLoader]
          \<and> filter is_test_pass (trace s') = [Test TestLoader]"
    by (elim exE conjE, intro exI conjI) assumption+
next
  fix s'
  assume t: "test a \<noteq> []" and m: "main x a fs ds = Inr s'"
  note r = test_mode_any [OF t assms m]
  show "test (args s') = ''runs/'' @ test a @ ''/checkpoint.pth.tar''" using r by simp
  show "optimizer s' = None" using r by simp
  show "filter is_training (trace s') = []" using r by simp
  show "length (filter is_test_pass (trace s')) \<le> 1" using r by simp
next
  fix first b
  assume t: "test a = []"
    and h: "index_of (start_epoch (args s)) = Some first \<and> num_of (best_prec1 s) = Some b"
  from t have m: "test a = [] \<or> imagenet a" by simp
  from h have h1: "index_of (start_epoch (args s)) = Some first"
    and h2: "num_of (best_prec1 s) = Some b" by simp_all
  from training_mode [OF m assms(2) h1 h2] obtain s' ps where
    r: "main x a fs ds = Inr s'" "length ps = length (py_range first (epochs a))"
       "trace s' = trace s @ [MakeOptimizer]
           @ concat (map2 epoch_events (py_range first (epochs a)) ps)
           @ [Print (MsgBestAccuracy (best_prec1 s'))]
           @ (if imagenet a then [] else [Test TestLoader])"
       "filter is_test_pass (trace s') = (if imagenet a then [] else [Test TestLoader])"
    by blast
  have "trace s' = trace s @ [MakeOptimizer]
           @ concat (map2 epoch_events (py_range first (epochs a)) ps)
           @ [Print (MsgBestAccuracy (best_prec1 s')), Test TestLoader]"
    using r(3) assms(1) by simp
  moreover have "filter is_test_pass (trace s') = [Test TestLoader]" using r(4) assms(1) by simp
  ultimately show "\<exists>s' ps. main x a fs ds = Inr s'
                      \<and> length ps = length (py_range first (epochs a))
                      \<and> trace s' = trace s @ [MakeOptimizer]
                           @ concat (map2 epoch_events (py_range first (epochs a)) ps)
                           @ [Print (MsgBestAccuracy (best_prec1 s')), Test TestLoader]
                      \<and> filter is_test_pass (trace s') = [Test TestLoader]"
    using r(1,2) by (intro exI [of _ s'] exI [of _ ps] conjI)
qed

theorem test_mode_and_final_test_witness:
  "\<not> imagenet test_args
   \<and> resume_branch (prepare demo_extern test_args demo_files {})
       = Inr (prepare demo_extern test_args demo_files {})
   \<and> (\<exists>s'. main demo_extern test_args demo_files {} = Inr s'
         \<and> test (args s') = ''runs/'' @ test test_args @ ''/checkpoint.pth.tar''
         \<and> model s' = 42
         \<and> filter is_test_pass (trace s') = [Test TestLoader])
   \<and> \<not> imagenet (default_args :: nat namespace)
   \<and> resume_branch (prepare demo_extern default_args Map.empty {})
       = Inr (prepare demo_extern default_args Map.empty {})
   \<and> (\<exists>s' (ps :: real list). main demo_extern default_args Map.empty {} = Inr s'
         \<and> length ps = length (py_range 0 (epochs (default_args :: nat namespace)))
         \<and> filter is_test_pass (trace s') = [Test TestLoader])"
proof -
  have h1: "\<not> imagenet test_args" by (simp add: test_args_def default_args_def)
  have h2: "resume_branch (prepare demo_extern test_args demo_files {})
       = Inr (prepare demo_extern test_args demo_files {})"
    by (rule resume_branch_none) (simp add: prepare_simps test_args_def default_args_def)
  have t: "test test_args \<noteq> []" by (simp add: test_args_def)
  have c: "demo_files (''runs/'' @ test test_args @ ''/checkpoint.pth.tar'') = Some demo_checkpoint
      \<and> demo_checkpoint ''epoch'' = Some (PInt 7)
      \<and> demo_checkpoint ''best_prec1'' = Some (PFloat (9 / 10))
      \<and> demo_checkpoint ''state_dict'' = Some (PStateDict 42)"
    by (simp add: test_args_def demo_files_def demo_checkpoint_def)
  from test_mode_and_final_test [OF h1 h2, THEN conjunct1, rule_format, OF t,
      THEN conjunct2, THEN conjunct1, rule_format, OF c]
  have 1: "\<exists>s'. main demo_extern test_args demo_files {} = Inr s'
         \<and> test (args s') = ''runs/'' @ test test_args @ ''/checkpoint.pth.tar''
         \<and> model s' = 42
         \<and> filter is_test_pass (trace s') = [Test TestLoader]"
    by (elim exE conjE, intro exI conjI) assumption+
  have g1: "\<not> imagenet (default_args :: nat namespace)" by (simp add: default_args_def)
  have g2: "resume_branch (prepare demo_extern default_args Map.empty {})
       = Inr (prepare demo_extern default_args Map.empty {})"
    by (rule resume_branch_none) (simp add: prepare_simps default_args_def)
  have t0: "test (default_args :: nat namespace) = []" by (simp add: default_args_def)
  have i: "index_of (start_epoch (args (prepare demo_extern default_args Map.empty {}))) = Some 0
      \<and> num_of (best_prec1 (prepare demo_extern default_args Map.empty {})) = Some 0"
    by (simp add: prepare_simps default_args_def)
  from test_mode_and_final_test [OF g1 g2, THEN conjunct2, rule_format, OF t0 i]
  have 2: "\<exists>s' (ps :: real list). main demo_extern default_args Map.empty {} = Inr s'
         \<and> length ps = length (py_range 0 (epochs (default_args :: nat namespace)))
         \<and> filter is_test_pass (trace s') = [Test TestLoader]"
    by (elim exE conjE, intro exI conjI) assumption+
  show ?thesis using h1 h2 1 g1 g2 2 by (intro conjI)
qed

text \<open>
  C8.  With both \<open>--test\<close> and \<open>--imagenet\<close>, \<open>main\<close> is the training phase: it returns after
  all epochs, \<open>args.test\<close> is as given, no test pass runs, and the only checkpoint loaded, if
  any, is the one of \<open>--resume\<close>.
\<close>

theorem imagenet_ignores_test:
  assumes "test a \<noteq> []" "imagenet a" "resume_branch (prepare x a fs ds) = Inr s"
    and "index_of (start_epoch (args s)) = Some first" "num_of (best_prec1 s) = Some b"
  shows "\<exists>s' ps. main x a fs ds = Inr s'
           \<and> main x a fs ds = train_phase x s
           \<and> length ps = length (py_range first (epochs a))
           \<and> trace s' = trace s @ [MakeOptimizer]
                @ concat (map2 epoch_events (py_range first (epochs a)) ps)
                @ [Print (MsgBestAccuracy (best_prec1 s'))]
           \<and> test (args s') = test a
           \<and> filter is_test_pass (trace s') = []
           \<and> filter is_load (trace s')
               = (if resume a \<noteq> [] \<and> fs (resume a) \<noteq> None then [TorchLoad (resume a)] else [])"
proof -
  from assms(2) have m: "test a = [] \<or> imagenet a" by simp
  from training_mode [OF m assms(3,4,5)] obtain s' ps where
    r: "main x a fs ds = Inr s'" "length ps = length (py_range first (epochs a))"
       "trace s' = trace s @ [MakeOptimizer]
           @ concat (map2 epoch_events (py_range first (epochs a)) ps)
           @ [Print (MsgBestAccuracy (best_prec1 s'))]
           @ (if imagenet a then [] else [Test TestLoader])"
       "test (args s') = test a"
       "filter is_test_pass (trace s') = (if imagenet a then [] else [Test TestLoader])"
       "filter is_load (trace s')
         = (if resume a \<noteq> [] \<and> fs (resume a) \<noteq> None then [TorchLoad (resume a)] else [])"
    by blast
  have t: "main x a fs ds = train_phase x s"
    using main_after_resume [OF assms(3)] assms(2) by simp
  have tr: "trace s' = trace s @ [MakeOptimizer]
           @ concat (map2 epoch_events (py_range first (epochs a)) ps)
           @ [Print (MsgBestAccuracy (best_prec1 s'))]"
    using r(3) assms(2) by simp
  have tp: "filter is_test_pass (trace s') = []" using r(5) assms(2) by simp
  show ?thesis
    using r(1) t r(2) tr r(4) tp r(6)
    by (intro exI [of _ s'] exI [of _ ps] conjI)
qed

theorem imagenet_ignores_test_witness:
  "test imagenet_test_args \<noteq> [] \<and> imagenet imagenet_test_args
   \<and> resume_branch (prepare demo_extern imagenet_test_args demo_files {})
       = Inr (prepare demo_extern imagenet_test_args demo_files {})
   \<and> index_of (start_epoch (args (prepare demo_extern imagenet_test_args demo_files {}))) = Some 0
   \<and> num_of (best_prec1 (prepare demo_extern imagenet_test_args demo_files {})) = Some 0
   \<and> (\<exists>s' (ps :: real list). main demo_extern imagenet_test_args demo_files {} = Inr s'
         \<and> length ps = length (py_range 0 (epochs imagenet_test_args))
         \<and> test (args s') = test imagenet_test_args
         \<and> filter is_test_pass (trace s') = []
         \<and> filter is_load (trace s')
             = (if resume imagenet_test_args \<noteq> [] \<and> demo_files (resume imagenet_test_args) \<noteq> None
                then [TorchLoad (resume imagenet_test_args)] else []))"
proof -
  have h1: "test imagenet_test_args \<noteq> []" by (simp add: imagenet_test_args_def)
  have h2: "imagenet imagenet_test_args" by (simp add: imagenet_test_args_def)
  have h3: "resume_branch (prepare demo_extern imagenet_test_args demo_files {})
       = Inr (prepare demo_extern imagenet_test_args demo_files {})"
    by (rule resume_branch_none) (simp add: prepare_simps imagenet_test_args_def default_args_def)
  have h4: "index_of (start_epoch (args (prepare demo_extern imagenet_test_args demo_files {}))) = Some 0"
    by (simp add: prepare_simps imagenet_test_args_def default_args_def)
  have h5: "num_of (best_prec1 (prepare demo_extern imagenet_test_args demo_files {})) = Some 0"
    by (simp add: prepare_simps)
  from imagenet_ignores_test [OF h1 h2 h3 h4 h5]
  have "\<exists>s' (ps :: real list). main demo_extern imagenet_test_args demo_files {} = Inr s'
         \<and> length ps = length (py_range 0 (epochs imagenet_test_args))
         \<and> test (args s') = test imagenet_test_args
         \<and> filter is_test_pass (trace s') = []
         \<and> filter is_load (trace s')
             = (if resume imagenet_test_args \<noteq> [] \<and> demo_files (resume imagenet_test_args) \<noteq> None
                then [TorchLoad (resume imagenet_test_args)] else [])"
    by (elim exE conjE, intro exI conjI) assumption+
  then show ?thesis using h1 h2 h3 h4 h5 by (intro conjI)
qed

end
